theory Spec2Isabelle
  imports Complex_Main
begin

section \<open>The two-fluid coronal loop model of loop.cpp\<close>

text \<open>
  The source computes in \<^verbatim>\<open>double\<close>. The embedding computes in \<^typ>\<open>real\<close>: rounding,
  overflow and NaN are outside the model, \<^verbatim>\<open>pow(x, 2)\<close> is \<open>x\<^sup>2\<close>, \<^verbatim>\<open>pow(x, y)\<close> for a
  fractional \<open>y\<close> is \<open>x powr y\<close> (they agree for \<open>x > 0\<close>), \<^verbatim>\<open>log10\<close> is \<open>log 10\<close>,
  \<^verbatim>\<open>log\<close> is \<open>ln\<close>, \<^verbatim>\<open>fabs\<close>, \<^verbatim>\<open>fmax\<close>, \<^verbatim>\<open>fmin\<close> are \<open>abs\<close>, \<open>max\<close>, \<open>min\<close>.
  The one place where the source leaves the finite numbers on inputs that the step-size
  properties range over, \<^verbatim>\<open>pow(error_ratio, -1.0/5.0)\<close> at an error ratio of zero, is written
  out in \<open>estimate_tau\<close> below.

  The header loop.h is not part of the sources at hand, so its macros are fields of
  the record \<open>constants\<close>, and the two collaborators (the radiative loss model and the
  heater) are functions held by the record \<open>loop_ctx\<close>. Local variables of the source
  that would clash with a field name are written with the symbols of the physics:
  \<open>Te\<close>, \<open>Ti\<close> for \<^verbatim>\<open>temperature_e\<close>, \<^verbatim>\<open>temperature_i\<close>, \<open>n\<close> for \<^verbatim>\<open>density\<close>,
  \<open>t\<close> for \<^verbatim>\<open>time\<close> and \<open>\<tau>\<close> for \<^verbatim>\<open>tau\<close>.
\<close>

subsection \<open>Data model\<close>

record constants =
  BOLTZMANN_CONSTANT :: real
  ELECTRON_MASS :: real
  PROTON_MASS :: real
  SPITZER_ELECTRON_CONDUCTIVITY :: real
  SPITZER_ION_CONDUCTIVITY :: real
  GAMMA :: real
  GAMMA_MINUS_ONE :: real
  SOLAR_SURFACE_GRAVITY :: real
  ELECTRON_CHARGE_POWER_4 :: real
  LARGEST_DOUBLE :: real
  PI :: real

record parameters =
  total_time :: real
  tau :: real
  loop_length :: real
  rka_error :: real
  saturation_limit :: real
  c1_cond0 :: real
  c1_rad0 :: real
  use_c1_loss_correction :: bool
  use_c1_grav_correction :: bool
  use_power_law_radiative_losses :: bool
  use_spitzer_conductivity :: bool
  calculate_dem :: bool
  solver :: string
  output_filename :: string
  boltzmann_correction :: real
  ion_mass_correction :: real

text \<open>
  The immutable part of a \<^verbatim>\<open>Loop\<close> object: the macros, the parsed configuration,
  \<^verbatim>\<open>radiation_model->GetPowerLawRad\<close>, \<^verbatim>\<open>heater->Get_Heating\<close> and \<^verbatim>\<open>heater->partition\<close>.
\<close>

record loop_ctx =
  phys :: constants
  params :: parameters
  GetPowerLawRad :: "real \<Rightarrow> real"
  Get_Heating :: "real \<Rightarrow> real"
  heater_partition :: real

subsection \<open>Closure coefficients\<close>

definition CalculateC2 :: real where
  "CalculateC2 = 0.9"

definition CalculateC3 :: real where
  "CalculateC3 = 0.6"

definition CalculateScaleHeight :: "loop_ctx \<Rightarrow> real \<Rightarrow> real \<Rightarrow> real" where
  "CalculateScaleHeight c Te Ti =
     BOLTZMANN_CONSTANT (phys c) * (Te + boltzmann_correction (params c) * Ti)
       / (ion_mass_correction (params c) * PROTON_MASS (phys c))
       / SOLAR_SURFACE_GRAVITY (phys c)"

definition CalculateCollisionFrequency :: "loop_ctx \<Rightarrow> real \<Rightarrow> real \<Rightarrow> real" where
  "CalculateCollisionFrequency c Te n =
     (let coulomb_logarithm =
            23 - ln (sqrt (n / 10 ^ 13)
                     * (BOLTZMANN_CONSTANT (phys c) * Te / (1602 / 10 ^ 12)) powr (- 1.5))
      in 16 * sqrt (PI (phys c)) / 3 * ELECTRON_CHARGE_POWER_4 (phys c)
           / (ion_mass_correction (params c) * PROTON_MASS (phys c) * ELECTRON_MASS (phys c))
           * (2 * BOLTZMANN_CONSTANT (phys c) * Te / ELECTRON_MASS (phys c)) powr (- 1.5)
           * n * coulomb_logarithm)"

definition CalculateC1 :: "loop_ctx \<Rightarrow> real \<Rightarrow> real \<Rightarrow> real \<Rightarrow> real" where
  "CalculateC1 c Te Ti n =
     (let c1_eqm0 = 2;
          c2 = CalculateC2;
          scale_height = CalculateScaleHeight c Te Ti;
          radiative_loss = GetPowerLawRad c (log 10 Te);
          grav_correction =
            (if use_c1_grav_correction (params c)
             then exp (4 * sin (PI (phys c) / 5) * loop_length (params c)
                        / (PI (phys c) * scale_height))
             else 1);
          loss_correction =
            (if use_c1_loss_correction (params c)
             then 195 / 10 ^ 20 * Te powr (- 2 / 3) / radiative_loss
             else 1);
          density_eqm_2 =
            (SPITZER_ELECTRON_CONDUCTIVITY (phys c) + SPITZER_ION_CONDUCTIVITY (phys c))
              * (Te / c2) powr 3.5
              / (3.5 * (loop_length (params c))\<^sup>2 * c1_eqm0 * loss_correction
                   * grav_correction * radiative_loss);
          density_ratio = n\<^sup>2 / density_eqm_2;
          c1 = (if density_ratio < 1
                then (2 * c1_eqm0 + c1_cond0 (params c) * (1 / density_ratio - 1))
                       / (1 + 1 / density_ratio)
                else (2 * c1_eqm0 + c1_rad0 (params c) * (density_ratio - 1))
                       / (1 + density_ratio))
      in c1 * loss_correction * grav_correction)"

text \<open>
  The values of the locals \<^verbatim>\<open>grav_correction\<close>, \<^verbatim>\<open>loss_correction\<close> and
  \<^verbatim>\<open>density_eqm_2\<close> of \<^verbatim>\<open>CalculateC1\<close>, named so that properties can speak of them.
\<close>

definition c1_grav_correction :: "loop_ctx \<Rightarrow> real \<Rightarrow> real \<Rightarrow> real" where
  "c1_grav_correction c Te Ti =
     (if use_c1_grav_correction (params c)
      then exp (4 * sin (PI (phys c) / 5) * loop_length (params c)
                 / (PI (phys c) * CalculateScaleHeight c Te Ti))
      else 1)"

definition c1_loss_correction :: "loop_ctx \<Rightarrow> real \<Rightarrow> real" where
  "c1_loss_correction c Te =
     (if use_c1_loss_correction (params c)
      then 195 / 10 ^ 20 * Te powr (- 2 / 3) / GetPowerLawRad c (log 10 Te)
      else 1)"

definition c1_density_eqm_2 :: "loop_ctx \<Rightarrow> real \<Rightarrow> real \<Rightarrow> real" where
  "c1_density_eqm_2 c Te Ti =
     (SPITZER_ELECTRON_CONDUCTIVITY (phys c) + SPITZER_ION_CONDUCTIVITY (phys c))
       * (Te / CalculateC2) powr 3.5
       / (3.5 * (loop_length (params c))\<^sup>2 * 2 * c1_loss_correction c Te
            * c1_grav_correction c Te Ti * GetPowerLawRad c (log 10 Te))"

text \<open>
  The piecewise factor as the specification words it: the conduction-dominated
  expression below a density ratio of one, the radiation-dominated one from one on,
  with the equilibrium value fixed at 2.0.
\<close>

definition c1_under_dense :: "real \<Rightarrow> real \<Rightarrow> real" where
  "c1_under_dense cond0 r = (2 * 2 + cond0 * (1 / r - 1)) / (1 + 1 / r)"

definition c1_over_dense :: "real \<Rightarrow> real \<Rightarrow> real" where
  "c1_over_dense rad0 r = (2 * 2 + rad0 * (r - 1)) / (1 + r)"

definition c1_piecewise :: "real \<Rightarrow> real \<Rightarrow> real \<Rightarrow> real" where
  "c1_piecewise cond0 rad0 r =
     (if r < 1 then c1_under_dense cond0 r else c1_over_dense rad0 r)"

subsection \<open>Thermal conduction\<close>

definition CalculateThermalConduction :: "loop_ctx \<Rightarrow> real \<Rightarrow> real \<Rightarrow> string \<Rightarrow> real" where
  "CalculateThermalConduction c T n species =
     (let c2 = CalculateC2;
          kappa = (if species = ''electron'' then SPITZER_ELECTRON_CONDUCTIVITY (phys c)
                   else SPITZER_ION_CONDUCTIVITY (phys c));
          mass = (if species = ''electron'' then ELECTRON_MASS (phys c)
                  else ion_mass_correction (params c) * PROTON_MASS (phys c));
          k_B = (if species = ''electron'' then BOLTZMANN_CONSTANT (phys c)
                 else boltzmann_correction (params c) * BOLTZMANN_CONSTANT (phys c));
          f_c = - 2 / 7 * kappa * (T / c2) powr 3.5 / loop_length (params c)
      in if use_spitzer_conductivity (params c) then f_c
         else (let f_s = - saturation_limit (params c) * 1.5 / sqrt mass * n
                           * (k_B * T) powr 1.5
               in - f_c * f_s / sqrt (f_c\<^sup>2 + f_s\<^sup>2)))"






subsection \<open>Undefined behaviour and failures as values\<close>

text \<open>
  A \<^verbatim>\<open>std::vector\<close> read or written out of range, a \<^verbatim>\<open>pop_back\<close> on an empty vector, a
  conversion to \<^verbatim>\<open>int\<close> of a value beyond its range and a read of a member that was never
  assigned are undefined in the source; a \<^verbatim>\<open>resize\<close> to a negative count throws. Each is
  a value of \<open>error\<close>, and every operation that can reach one returns \<open>error + 'a\<close>.
  \<open>NonFinite\<close> stands for a computation that has left the finite numbers, where the model
  does not follow the source. \<open>OutOfFuel\<close> is the outcome of a time loop that has not
  ended within the number of iterations granted to it.
\<close>

datatype error = OutOfRange | LengthError | Uninitialised | NonFinite | OutOfFuel

definition and_then :: "error + 'a \<Rightarrow> ('a \<Rightarrow> error + 'b) \<Rightarrow> error + 'b" where
  "and_then r f = (case r of Inl e \<Rightarrow> Inl e | Inr x \<Rightarrow> f x)"

text \<open>\<^verbatim>\<open>for(i=0;i<m;i++) body\<close> over an accumulated value.\<close>

definition for_loop :: "nat \<Rightarrow> (nat \<Rightarrow> 'a \<Rightarrow> 'a) \<Rightarrow> 'a \<Rightarrow> 'a" where
  "for_loop m body init = fold body [0..<m] init"

subsection \<open>The derivative function\<close>

definition CalculateDerivs :: "loop_ctx \<Rightarrow> real list \<Rightarrow> real \<Rightarrow> error + real list" where
  "CalculateDerivs c state t =
     (if length state < 3 then Inl OutOfRange
      else
       (let Te = state ! 0 / (BOLTZMANN_CONSTANT (phys c) * state ! 2);
            Ti = state ! 1
                   / (BOLTZMANN_CONSTANT (phys c) * boltzmann_correction (params c) * state ! 2);
            f_e = CalculateThermalConduction c Te (state ! 2) ''electron'';
            f_i = CalculateThermalConduction c Ti (state ! 2) ''ion'';
            radiative_loss = GetPowerLawRad c (log 10 Te);
            heating = Get_Heating c t;
            c1 = CalculateC1 c Te Ti (state ! 2);
            c2 = CalculateC2;
            c3 = CalculateC3;
            collision_frequency = CalculateCollisionFrequency c Te (state ! 2);
            xi = state ! 0 / state ! 1;
            psi_c = loop_length (params c) / GAMMA_MINUS_ONE (phys c) * collision_frequency
                      * (state ! 1 - state ! 0);
            R_c = (state ! 2)\<^sup>2 * radiative_loss * loop_length (params c);
            psi_tr = (f_e + c1 * R_c - xi * f_i) / (1 + xi);
            dpe_dt = GAMMA_MINUS_ONE (phys c) / loop_length (params c)
                       * (psi_tr + psi_c - R_c * (1 + c1))
                     + GAMMA_MINUS_ONE (phys c) * heating * heater_partition c;
            dpi_dt = - GAMMA_MINUS_ONE (phys c) / loop_length (params c) * (psi_tr + psi_c)
                     + GAMMA_MINUS_ONE (phys c) * heating * (1 - heater_partition c);
            dn_dt = c2 * GAMMA_MINUS_ONE (phys c)
                      / (c3 * loop_length (params c) * GAMMA (phys c)
                           * BOLTZMANN_CONSTANT (phys c) * Te)
                      * (- f_e - c1 * R_c + psi_tr)
        in Inr [dpe_dt, dpi_dt, dn_dt]))"

text \<open>
  The quantities of the specification's derivative contract, as functions of the three
  components \<open>Pe\<close>, \<open>Pi\<close>, \<open>n\<close> of the state.
\<close>

definition electron_temperature :: "loop_ctx \<Rightarrow> real \<Rightarrow> real \<Rightarrow> real" where
  "electron_temperature c Pe n = Pe / (BOLTZMANN_CONSTANT (phys c) * n)"

definition ion_temperature :: "loop_ctx \<Rightarrow> real \<Rightarrow> real \<Rightarrow> real" where
  "ion_temperature c Pi n =
     Pi / (boltzmann_correction (params c) * BOLTZMANN_CONSTANT (phys c) * n)"

definition radiative_R_c :: "loop_ctx \<Rightarrow> real \<Rightarrow> real \<Rightarrow> real" where
  "radiative_R_c c Pe n =
     n\<^sup>2 * GetPowerLawRad c (log 10 (electron_temperature c Pe n)) * loop_length (params c)"

definition flux_e :: "loop_ctx \<Rightarrow> real \<Rightarrow> real \<Rightarrow> real" where
  "flux_e c Pe n = CalculateThermalConduction c (electron_temperature c Pe n) n ''electron''"

definition flux_i :: "loop_ctx \<Rightarrow> real \<Rightarrow> real \<Rightarrow> real" where
  "flux_i c Pi n = CalculateThermalConduction c (ion_temperature c Pi n) n ''ion''"

definition state_C1 :: "loop_ctx \<Rightarrow> real \<Rightarrow> real \<Rightarrow> real \<Rightarrow> real" where
  "state_C1 c Pe Pi n =
     CalculateC1 c (electron_temperature c Pe n) (ion_temperature c Pi n) n"

definition psi_tr_flux :: "loop_ctx \<Rightarrow> real \<Rightarrow> real \<Rightarrow> real \<Rightarrow> real" where
  "psi_tr_flux c Pe Pi n =
     (flux_e c Pe n + state_C1 c Pe Pi n * radiative_R_c c Pe n - Pe / Pi * flux_i c Pi n)
       / (1 + Pe / Pi)"

definition psi_c_coupling :: "loop_ctx \<Rightarrow> real \<Rightarrow> real \<Rightarrow> real \<Rightarrow> real" where
  "psi_c_coupling c Pe Pi n =
     loop_length (params c) / GAMMA_MINUS_ONE (phys c)
       * CalculateCollisionFrequency c (electron_temperature c Pe n) n * (Pi - Pe)"

text \<open>
  Two contexts are the same to a derivative evaluation at electron temperature \<open>Te\<close> and
  time \<open>t\<close> when they share the macros, the configuration and the heating partition,
  and their collaborators answer the two queries of the evaluation alike.
\<close>

definition same_answers :: "loop_ctx \<Rightarrow> loop_ctx \<Rightarrow> real \<Rightarrow> real \<Rightarrow> bool" where
  "same_answers c c' Te t \<longleftrightarrow>
     phys c' = phys c \<and> params c' = params c \<and> heater_partition c' = heater_partition c
     \<and> GetPowerLawRad c' (log 10 Te) = GetPowerLawRad c (log 10 Te)
     \<and> Get_Heating c' t = Get_Heating c t"

subsection \<open>Integrators\<close>

definition EulerSolver :: "loop_ctx \<Rightarrow> real list \<Rightarrow> real \<Rightarrow> real \<Rightarrow> error + real list" where
  "EulerSolver c state t \<tau> =
     and_then (CalculateDerivs c state t) (\<lambda>derivs.
       if length derivs < length state then Inl OutOfRange
       else Inr (for_loop (length state)
                   (\<lambda>i new_state. new_state[i := state ! i + derivs ! i * \<tau>])
                   (replicate (length state) 0)))"

definition RK4Solver :: "loop_ctx \<Rightarrow> real list \<Rightarrow> real \<Rightarrow> real \<Rightarrow> error + real list" where
  "RK4Solver c state t \<tau> =
     and_then (CalculateDerivs c state t) (\<lambda>f1.
       let tmp1 = for_loop (length f1) (\<lambda>i tmp. tmp[i := state ! i + \<tau> / 2 * f1 ! i])
                    (replicate (length state) 0)
       in and_then (CalculateDerivs c tmp1 (t + \<tau> / 2)) (\<lambda>f2.
       let tmp2 = for_loop (length f2) (\<lambda>i tmp. tmp[i := state ! i + \<tau> / 2 * f2 ! i]) tmp1
       in and_then (CalculateDerivs c tmp2 (t + \<tau> / 2)) (\<lambda>f3.
       let tmp3 = for_loop (length f3) (\<lambda>i tmp. tmp[i := state ! i + \<tau> * f3 ! i]) tmp2
       in and_then (CalculateDerivs c tmp3 (t + \<tau>)) (\<lambda>f4.
       Inr (for_loop (length f4)
              (\<lambda>i new_state. new_state[i := state ! i
                   + \<tau> / 6 * (f1 ! i + 2 * f2 ! i + 2 * f3 ! i + f4 ! i)])
              (replicate (length state) 0))))))"

text \<open>
  The inner loop of \<^verbatim>\<open>RKA4Solver\<close>: one error ratio for each of the \<^verbatim>\<open>state.size()\<close>
  components, and \<^verbatim>\<open>*std::max_element\<close> over them.
\<close>

definition error_ratios :: "loop_ctx \<Rightarrow> nat \<Rightarrow> real list \<Rightarrow> real list \<Rightarrow> real list" where
  "error_ratios c m small_step big_step =
     for_loop m
       (\<lambda>j tmp. let scale = rka_error (params c) * (\<bar>small_step ! j\<bar> + \<bar>big_step ! j\<bar>) / 2;
                     diff = small_step ! j - big_step ! j
                 in tmp[j := \<bar>diff\<bar> / (scale + 1 / 10 ^ 16)])
       (replicate m 0)"

definition max_element :: "real list \<Rightarrow> error + real" where
  "max_element xs = (case xs of [] \<Rightarrow> Inl OutOfRange | x # ys \<Rightarrow> Inr (fold max ys x))"

definition rka4_attempt ::
  "loop_ctx \<Rightarrow> real list \<Rightarrow> real \<Rightarrow> real \<Rightarrow> error + (real list \<times> real)" where
  "rka4_attempt c state t \<tau> =
     and_then (RK4Solver c state t (\<tau> * 0.5)) (\<lambda>half_step.
     and_then (RK4Solver c half_step (t + \<tau> * 0.5) (\<tau> * 0.5)) (\<lambda>small_step.
     and_then (RK4Solver c state t \<tau>) (\<lambda>big_step.
     and_then (max_element (error_ratios c (length state) small_step big_step))
       (\<lambda>error_ratio. Inr (small_step, error_ratio)))))"

text \<open>
  The step size after \<^verbatim>\<open>tau = safety_1*old_tau*pow(error_ratio,-1.0/5.0)\<close> and
  \<^verbatim>\<open>tau = fmax(tau,old_tau/safety_2)\<close>. For a positive error ratio this is finite
  arithmetic. At an error ratio of zero \<^verbatim>\<open>pow\<close> returns +infinity, whose product with
  a positive \<^verbatim>\<open>old_tau\<close> is +infinity; with a zero or negative \<^verbatim>\<open>old_tau\<close> the product is NaN
  or -infinity, and for a negative error ratio \<^verbatim>\<open>pow\<close> returns NaN: \<^verbatim>\<open>fmax\<close> then returns
  its other argument.
\<close>

datatype tau_val = Finite real | PlusInfinity

definition estimate_tau :: "real \<Rightarrow> real \<Rightarrow> tau_val" where
  "estimate_tau old_tau error_ratio =
     (if 0 < error_ratio
      then Finite (max (0.9 * old_tau * error_ratio powr (- 1 / 5)) (old_tau / 1.1))
      else if error_ratio = 0 \<and> 0 < old_tau then PlusInfinity
      else Finite (old_tau / 1.1))"

fun fmin_tau :: "tau_val \<Rightarrow> real \<Rightarrow> real" where
  "fmin_tau (Finite x) y = min x y"
| "fmin_tau PlusInfinity y = y"

datatype message = Warning_not_converged | Returning_tau real real

text \<open>
  The attempt loop, counted by the attempts that remain (\<^verbatim>\<open>max_try - i\<close>), followed by
  the code after the loop. \<open>prev\<close> holds the locals \<^verbatim>\<open>small_step\<close> and \<^verbatim>\<open>old_tau\<close>, which
  have no value before the first attempt. The result is the returned vector and what
  was printed.
\<close>

fun rka4_loop ::
  "loop_ctx \<Rightarrow> real list \<Rightarrow> real \<Rightarrow> nat \<Rightarrow> real \<Rightarrow> (real list \<times> real) option
     \<Rightarrow> error + (real list \<times> message list)" where
  "rka4_loop c state t 0 \<tau> prev =
     (case prev of
        None \<Rightarrow> Inl Uninitialised
      | Some (small_step, old_tau) \<Rightarrow>
          (let \<tau>' = min \<tau> (4 * old_tau)
           in Inr (small_step @ [\<tau>'], [Warning_not_converged, Returning_tau \<tau>' t])))"
| "rka4_loop c state t (Suc k) \<tau> prev =
     (case rka4_attempt c state t \<tau> of
        Inl e \<Rightarrow> Inl e
      | Inr (small_step, error_ratio) \<Rightarrow>
          (let old_tau = \<tau>;
               \<tau>' = estimate_tau old_tau error_ratio
           in if error_ratio < 1
              then Inr (small_step @ [fmin_tau \<tau>' (4 * old_tau)], [])
              else (case \<tau>' of
                      PlusInfinity \<Rightarrow> Inl NonFinite
                    | Finite \<tau>'' \<Rightarrow> rka4_loop c state t k \<tau>'' (Some (small_step, old_tau)))))"

definition RKA4Solver ::
  "loop_ctx \<Rightarrow> real list \<Rightarrow> real \<Rightarrow> real \<Rightarrow> error + (real list \<times> message list)" where
  "RKA4Solver c state t \<tau> = rka4_loop c state t 100 \<tau> None"

subsection \<open>The Loop object\<close>

record results =
  time :: "real list"
  heat :: "real list"
  pressure_e :: "real list"
  pressure_i :: "real list"
  temperature_e :: "real list"
  temperature_i :: "real list"
  density :: "real list"

text \<open>
  The mutable members: the estimate \<^verbatim>\<open>N\<close>, \<^verbatim>\<open>excess\<close> (without a value until
  \<^verbatim>\<open>EvolveLoop\<close> assigns it), \<^verbatim>\<open>__state\<close>, the results, the arguments of every
  \<^verbatim>\<open>dem->CalculateDEM\<close> call, and what was printed.
\<close>

record loop =
  N :: int
  excess :: "int option"
  loop_state :: "real list"
  results :: results
  dem_calls :: "(int \<times> real \<times> real \<times> real \<times> real) list"
  console :: "message list"

definition equal_lengths :: "results \<Rightarrow> nat \<Rightarrow> bool" where
  "equal_lengths r m \<longleftrightarrow>
     length (time r) = m \<and> length (heat r) = m \<and> length (pressure_e r) = m
     \<and> length (pressure_i r) = m \<and> length (temperature_e r) = m
     \<and> length (temperature_i r) = m \<and> length (density r) = m"



text \<open>\<^verbatim>\<open>v[i] = x\<close> and \<^verbatim>\<open>v.pop_back()\<close> on a vector.\<close>

definition set_at :: "real list \<Rightarrow> int \<Rightarrow> real \<Rightarrow> error + real list" where
  "set_at v i x = (if 0 \<le> i \<and> nat i < length v then Inr (v[nat i := x]) else Inl OutOfRange)"


definition SaveResults :: "loop_ctx \<Rightarrow> loop \<Rightarrow> int \<Rightarrow> real \<Rightarrow> error + loop" where
  "SaveResults c l i t =
     (if length (loop_state l) < 3 then Inl OutOfRange
      else
       (let heating = Get_Heating c t;
            Te = loop_state l ! 0 / (BOLTZMANN_CONSTANT (phys c) * loop_state l ! 2);
            Ti = loop_state l ! 1
                   / (BOLTZMANN_CONSTANT (phys c) * boltzmann_correction (params c)
                        * loop_state l ! 2);
            r = results l
        in if N l \<le> i
           then Inr (l\<lparr>results :=
                       \<lparr>time = time r @ [t], heat = heat r @ [heating],
                        pressure_e = pressure_e r @ [loop_state l ! 0],
                        pressure_i = pressure_i r @ [loop_state l ! 1],
                        temperature_e = temperature_e r @ [Te],
                        temperature_i = temperature_i r @ [Ti],
                        density = density r @ [loop_state l ! 2]\<rparr>\<rparr>)
           else
             and_then (set_at (time r) i t) (\<lambda>v_time.
             and_then (set_at (heat r) i heating) (\<lambda>v_heat.
             and_then (set_at (temperature_e r) i Te) (\<lambda>v_temperature_e.
             and_then (set_at (temperature_i r) i Ti) (\<lambda>v_temperature_i.
             and_then (set_at (pressure_e r) i (loop_state l ! 0)) (\<lambda>v_pressure_e.
             and_then (set_at (pressure_i r) i (loop_state l ! 1)) (\<lambda>v_pressure_i.
             and_then (set_at (density r) i (loop_state l ! 2)) (\<lambda>v_density.
               Inr (l\<lparr>results :=
                      \<lparr>time = v_time, heat = v_heat, pressure_e = v_pressure_e,
                       pressure_i = v_pressure_i, temperature_e = v_temperature_e,
                       temperature_i = v_temperature_i, density = v_density\<rparr>\<rparr>))))))))))"

subsection \<open>Initial conditions\<close>

text \<open>
  Where an operation of the source leaves the finite numbers (a division by zero, a
  fractional power or a square root of a negative number, a logarithm of a number that
  is not positive) its \<^verbatim>\<open>double\<close> is an infinity or a NaN, which \<^typ>\<open>real\<close> does not have.
  The initial conditions compare such values, so their model follows the computation
  no further than that operation and returns \<open>NonFinite\<close>.

  \<open>CalculateC1_finite\<close> lists what \<^verbatim>\<open>CalculateC1\<close> needs to stay finite: a positive
  temperature for \<^verbatim>\<open>log10\<close> and the two powers, and non-zero divisors for the scale
  height and the exponent of the gravity correction (when it is used), for the loss
  correction (when it is used), for \<^verbatim>\<open>density_eqm_2\<close>, for \<^verbatim>\<open>density_ratio\<close> and for the
  branch taken.
\<close>

definition CalculateC1_finite :: "loop_ctx \<Rightarrow> real \<Rightarrow> real \<Rightarrow> real \<Rightarrow> bool" where
  "CalculateC1_finite c Te Ti n \<longleftrightarrow>
     0 < Te
     \<and> (use_c1_grav_correction (params c) \<longrightarrow>
          ion_mass_correction (params c) * PROTON_MASS (phys c) \<noteq> 0
          \<and> SOLAR_SURFACE_GRAVITY (phys c) \<noteq> 0
          \<and> PI (phys c) * CalculateScaleHeight c Te Ti \<noteq> 0)
     \<and> (use_c1_loss_correction (params c) \<longrightarrow> GetPowerLawRad c (log 10 Te) \<noteq> 0)
     \<and> 3.5 * (loop_length (params c))\<^sup>2 * 2 * c1_loss_correction c Te
           * c1_grav_correction c Te Ti * GetPowerLawRad c (log 10 Te) \<noteq> 0
     \<and> c1_density_eqm_2 c Te Ti \<noteq> 0
     \<and> (n\<^sup>2 / c1_density_eqm_2 c Te Ti < 1 \<longrightarrow>
          n\<^sup>2 / c1_density_eqm_2 c Te Ti \<noteq> 0
          \<and> 1 + 1 / (n\<^sup>2 / c1_density_eqm_2 c Te Ti) \<noteq> 0)"

text \<open>
  The \<^verbatim>\<open>while(i<i_max)\<close> loop of \<^verbatim>\<open>CalculateInitialConditions\<close>, with \<^verbatim>\<open>i_max = 100\<close> and
  \<^verbatim>\<open>tol = 1e-2\<close>. \<^verbatim>\<open>c1\<close> is 2.0 in the first pass and recomputed from the old values
  in every later one. \<open>x\<close> is the argument of the power that gives the temperature and
  \<open>y\<close> the argument of the square root that gives the density: both have to be positive,
  for the temperature goes into \<^verbatim>\<open>log10\<close> and both results are divisors of the relative
  errors. The result is \<^verbatim>\<open>temperature\<close>, \<^verbatim>\<open>density\<close> and \<^verbatim>\<open>i\<close> at the exit.
\<close>

function ic_loop ::
  "loop_ctx \<Rightarrow> real \<Rightarrow> nat \<Rightarrow> real \<Rightarrow> real \<Rightarrow> error + (real \<times> real \<times> nat)" where
  "ic_loop c heating i temperature_old density_old =
     (if i < 100
      then
       (if 0 < i \<and> \<not> CalculateC1_finite c temperature_old temperature_old density_old
        then Inl NonFinite
        else
         (let c1 = (if 0 < i then CalculateC1 c temperature_old temperature_old density_old
                    else 2);
              x = 3.5 * c1 / (1 + c1) * (loop_length (params c))\<^sup>2 * heating
                    / (SPITZER_ELECTRON_CONDUCTIVITY (phys c)
                         + SPITZER_ION_CONDUCTIVITY (phys c))
          in if 1 + c1 = 0
                \<or> SPITZER_ELECTRON_CONDUCTIVITY (phys c) + SPITZER_ION_CONDUCTIVITY (phys c) = 0
                \<or> x \<le> 0
             then Inl NonFinite
             else
              (let T = CalculateC2 * x powr (2 / 7);
                   radiative_loss = GetPowerLawRad c (log 10 T);
                   y = heating / (radiative_loss * (1 + c1))
               in if radiative_loss * (1 + c1) = 0 \<or> y \<le> 0 then Inl NonFinite
                  else
                   (let n = sqrt y;
                        error_temperature = \<bar>T - temperature_old\<bar> / T;
                        error_density = \<bar>n - density_old\<bar> / n
                    in if max error_density error_temperature < 1 / 100 then Inr (T, n, i)
                       else ic_loop c heating (i + 1) T n))))
      else Inr (temperature_old, density_old, i))"
  by pat_completeness auto
termination
  by (relation "measure (\<lambda>(c, heating, i, temperature_old, density_old). 100 - i)") auto

declare ic_loop.simps [simp del]


text \<open>
  The iterates as the specification describes them: the temperature from the
  conduction-radiation balance and the density from the energy balance, for a given
  \<open>C1\<close>; the first pair from \<open>C1 = 2.0\<close>, each later pair from \<open>C1\<close> at the pair before.
\<close>

definition balance_pair :: "loop_ctx \<Rightarrow> real \<Rightarrow> real \<Rightarrow> real \<times> real" where
  "balance_pair c heating c1 =
     (let T = CalculateC2
                * (3.5 * c1 / (1 + c1) * (loop_length (params c))\<^sup>2 * heating
                     / (SPITZER_ELECTRON_CONDUCTIVITY (phys c)
                          + SPITZER_ION_CONDUCTIVITY (phys c))) powr (2 / 7)
      in (T, sqrt (heating / (GetPowerLawRad c (log 10 T) * (1 + c1)))))"

fun ic_iterate :: "loop_ctx \<Rightarrow> real \<Rightarrow> nat \<Rightarrow> real \<times> real" where
  "ic_iterate c heating 0 = balance_pair c heating 2"
| "ic_iterate c heating (Suc k) =
     (case ic_iterate c heating k of
        (T, n) \<Rightarrow> balance_pair c heating (CalculateC1 c T T n))"

text \<open>The pair before iterate \<open>k\<close>; before the first one stands \<^verbatim>\<open>LARGEST_DOUBLE\<close>.\<close>

fun ic_previous :: "loop_ctx \<Rightarrow> real \<Rightarrow> nat \<Rightarrow> real \<times> real" where
  "ic_previous c heating 0 = (LARGEST_DOUBLE (phys c), LARGEST_DOUBLE (phys c))"
| "ic_previous c heating (Suc k) = ic_iterate c heating k"

definition ic_converged :: "loop_ctx \<Rightarrow> real \<Rightarrow> nat \<Rightarrow> bool" where
  "ic_converged c heating k =
     (case (ic_iterate c heating k, ic_previous c heating k) of
        ((T, n), (T_old, n_old)) \<Rightarrow>
          \<bar>T - T_old\<bar> / T < 1 / 100 \<and> \<bar>n - n_old\<bar> / n < 1 / 100)"

text \<open>
  The balance for a given \<open>C1\<close> stays within the finite numbers when its divisors are not
  zero and the arguments of its power and of its square root are positive; pass \<open>k\<close> does
  when \<open>C1\<close> at the pair before it does (from the second pass on) and its balance does.
\<close>

definition balance_finite :: "loop_ctx \<Rightarrow> real \<Rightarrow> real \<Rightarrow> bool" where
  "balance_finite c heating c1 \<longleftrightarrow>
     1 + c1 \<noteq> 0
     \<and> SPITZER_ELECTRON_CONDUCTIVITY (phys c) + SPITZER_ION_CONDUCTIVITY (phys c) \<noteq> 0
     \<and> 0 < 3.5 * c1 / (1 + c1) * (loop_length (params c))\<^sup>2 * heating
             / (SPITZER_ELECTRON_CONDUCTIVITY (phys c) + SPITZER_ION_CONDUCTIVITY (phys c))
     \<and> GetPowerLawRad c (log 10 (fst (balance_pair c heating c1))) * (1 + c1) \<noteq> 0
     \<and> 0 < heating / (GetPowerLawRad c (log 10 (fst (balance_pair c heating c1))) * (1 + c1))"

definition ic_finite :: "loop_ctx \<Rightarrow> real \<Rightarrow> nat \<Rightarrow> bool" where
  "ic_finite c heating k =
     (case ic_previous c heating k of
        (T_old, n_old) \<Rightarrow>
          if 0 < k
          then CalculateC1_finite c T_old T_old n_old
               \<and> balance_finite c heating (CalculateC1 c T_old T_old n_old)
          else balance_finite c heating 2)"

text \<open>
  The loop is left at a pass that is not finite or has converged. \<open>first_leaving\<close> is the
  first such pass from \<open>k\<close> on, looking at no more than \<open>m\<close> of them.
\<close>

definition ic_leaves :: "loop_ctx \<Rightarrow> real \<Rightarrow> nat \<Rightarrow> bool" where
  "ic_leaves c heating k \<longleftrightarrow> \<not> ic_finite c heating k \<or> ic_converged c heating k"

fun first_leaving :: "loop_ctx \<Rightarrow> real \<Rightarrow> nat \<Rightarrow> nat \<Rightarrow> nat option" where
  "first_leaving c heating k 0 = None"
| "first_leaving c heating k (Suc m) =
     (if ic_leaves c heating k then Some k else first_leaving c heating (Suc k) m)"

subsection \<open>The time loop\<close>

text \<open>
  One pass through the body of the \<^verbatim>\<open>while\<close> loop of \<^verbatim>\<open>EvolveLoop\<close> on the object and
  the locals \<^verbatim>\<open>i\<close>, \<^verbatim>\<open>time\<close>, \<^verbatim>\<open>tau\<close>.
\<close>

definition solver_dispatch :: "loop_ctx \<Rightarrow> loop \<Rightarrow> real \<Rightarrow> real \<Rightarrow> error + (loop \<times> real)" where
  "solver_dispatch c l t \<tau> =
     (if solver (params c) = ''euler''
      then and_then (EulerSolver c (loop_state l) t \<tau>)
             (\<lambda>s. Inr (l\<lparr>loop_state := s\<rparr>, \<tau>))
      else if solver (params c) = ''rk4''
      then and_then (RK4Solver c (loop_state l) t \<tau>)
             (\<lambda>s. Inr (l\<lparr>loop_state := s\<rparr>, \<tau>))
      else if solver (params c) = ''rka4''
      then and_then (RKA4Solver c (loop_state l) t \<tau>)
             (\<lambda>(tmp_state, printed).
                if tmp_state = [] then Inl OutOfRange
                else Inr (l\<lparr>loop_state := butlast tmp_state,
                            console := console l @ printed\<rparr>, last tmp_state))
      else Inr (l, \<tau>))"

definition dem_step :: "loop_ctx \<Rightarrow> loop \<Rightarrow> int \<Rightarrow> error + loop" where
  "dem_step c l i =
     (if calculate_dem (params c)
      then
       (if length (loop_state l) < 3 then Inl OutOfRange
        else
         (let tmp_temperature_e =
                loop_state l ! 0 / (BOLTZMANN_CONSTANT (phys c) * loop_state l ! 2);
              tmp_temperature_i =
                loop_state l ! 1
                  / (boltzmann_correction (params c) * BOLTZMANN_CONSTANT (phys c)
                       * loop_state l ! 2);
              tmp_fe = CalculateThermalConduction c tmp_temperature_e (loop_state l ! 2)
                         ''electron'';
              tmp_c1 = CalculateC1 c tmp_temperature_e tmp_temperature_i (loop_state l ! 2)
          in Inr (l\<lparr>dem_calls := dem_calls l
                       @ [(i, loop_state l ! 0, loop_state l ! 2, tmp_fe, tmp_c1)]\<rparr>)))
      else Inr l)"

definition evolve_body ::
  "loop_ctx \<Rightarrow> loop \<times> int \<times> real \<times> real \<Rightarrow> error + (loop \<times> int \<times> real \<times> real)" where
  "evolve_body c v =
     (case v of (l, i, t, \<tau>) \<Rightarrow>
        and_then (solver_dispatch c l t \<tau>) (\<lambda>(l1, \<tau>1).
        and_then (dem_step c l1 i) (\<lambda>l2.
        and_then (SaveResults c l2 i t) (\<lambda>l3.
          Inr (l3, i + 1, t + \<tau>1, \<tau>1)))))"

text \<open>
  The \<^verbatim>\<open>while(time<parameters.total_time)\<close> loop. It ends only when the time reaches
  \<^verbatim>\<open>total_time\<close>, so it is run for at most \<open>fuel\<close> passes.
\<close>

fun evolve_while ::
  "nat \<Rightarrow> loop_ctx \<Rightarrow> loop \<times> int \<times> real \<times> real \<Rightarrow> error + (loop \<times> int \<times> real \<times> real)" where
  "evolve_while fuel c (l, i, t, \<tau>) =
     (if t < total_time (params c)
      then (case fuel of
              0 \<Rightarrow> Inl OutOfFuel
            | Suc k \<Rightarrow>
                (case evolve_body c (l, i, t, \<tau>) of
                   Inl e \<Rightarrow> Inl e
                 | Inr v \<Rightarrow> evolve_while k c v))
      else Inr (l, i, t, \<tau>))"


subsection \<open>The time update in binary64\<close>

text \<open>
  The locals \<^verbatim>\<open>time\<close> and \<^verbatim>\<open>tau\<close> of \<^verbatim>\<open>EvolveLoop\<close> are of type \<^verbatim>\<open>double\<close>, and
  \<^verbatim>\<open>time += tau\<close> stores the \<^verbatim>\<open>double\<close> nearest to the sum, a tie going to the even
  significand. Whether the time of a run advances depends on this rounding, so it is
  written out here: \<open>binary64 x\<close> is the nearest number with a significand of 53 bits
  and an exponent of at least -1022, for \<open>x\<close> below \<open>2\<^sup>1\<^sup>0\<^sup>2\<^sup>4\<close> in magnitude.
\<close>

definition round_half_even :: "real \<Rightarrow> int" where
  "round_half_even q =
     (let f = \<lfloor>q\<rfloor>
      in if q - of_int f < 1 / 2 then f
         else if 1 / 2 < q - of_int f then f + 1
         else if even f then f else f + 1)"

definition binary64 :: "real \<Rightarrow> real" where
  "binary64 x =
     (if x = 0 then 0
      else
       (let e = max \<lfloor>log 2 \<bar>x\<bar>\<rfloor> (- 1022);
            ulp = 2 powr (of_int e - 52)
        in of_int (round_half_even (x / ulp)) * ulp))"

definition time_update :: "real \<Rightarrow> real \<Rightarrow> real" where
  "time_update t \<tau> = binary64 (t + \<tau>)"

subsection \<open>Export\<close>





subsection \<open>Notions the properties speak of\<close>

text \<open>
  The worst-case error ratio of an attempt of the adaptive solver, as the specification
  words it: the largest, over the components, of the distance between the small-step
  and the big-step result, scaled by the tolerance.
\<close>

definition component_error_ratio :: "loop_ctx \<Rightarrow> real list \<Rightarrow> real list \<Rightarrow> nat \<Rightarrow> real" where
  "component_error_ratio c small_step big_step j =
     \<bar>small_step ! j - big_step ! j\<bar>
       / (rka_error (params c) * (\<bar>small_step ! j\<bar> + \<bar>big_step ! j\<bar>) / 2 + 1 / 10 ^ 16)"

definition worst_error_ratio :: "loop_ctx \<Rightarrow> real list \<Rightarrow> real list \<Rightarrow> real" where
  "worst_error_ratio c small_step big_step =
     Max (component_error_ratio c small_step big_step ` {..<length small_step})"

text \<open>
  An attempt at step size \<open>\<tau>\<close>: two successive half steps give \<open>small_step\<close>, one full step
  gives \<open>big_step\<close>, and \<open>r\<close> is the worst-case error ratio of the two.
\<close>

definition attempt_at ::
  "loop_ctx \<Rightarrow> real list \<Rightarrow> real \<Rightarrow> real \<Rightarrow> real list \<Rightarrow> real \<Rightarrow> bool" where
  "attempt_at c state t \<tau> small_step r \<longleftrightarrow>
     (\<exists>half_step big_step.
        RK4Solver c state t (\<tau> * 0.5) = Inr half_step
        \<and> RK4Solver c half_step (t + \<tau> * 0.5) (\<tau> * 0.5) = Inr small_step
        \<and> RK4Solver c state t \<tau> = Inr big_step
        \<and> r = worst_error_ratio c small_step big_step)"



text \<open>
  The rows of the results: before row \<open>i\<close> is saved, each of the seven sequences has
  \<open>max N i\<close> entries.
\<close>

definition rows_inv :: "loop \<Rightarrow> int \<Rightarrow> bool" where
  "rows_inv l i \<longleftrightarrow> 0 \<le> i \<and> 0 \<le> N l \<and> equal_lengths (results l) (nat (max (N l) i))"

subsection \<open>A concrete configuration\<close>

text \<open>
  The physical constants in cgs units, a loop of 40 Mm, a constant radiative loss rate and
  a constant heating rate.
\<close>

definition demo_constants :: constants where
  "demo_constants =
     \<lparr>BOLTZMANN_CONSTANT = 138 / 10 ^ 18, ELECTRON_MASS = 911 / 10 ^ 30,
      PROTON_MASS = 167 / 10 ^ 26, SPITZER_ELECTRON_CONDUCTIVITY = 78 / 10 ^ 8,
      SPITZER_ION_CONDUCTIVITY = 32 / 10 ^ 9, GAMMA = 5 / 3, GAMMA_MINUS_ONE = 2 / 3,
      SOLAR_SURFACE_GRAVITY = 27400, ELECTRON_CHARGE_POWER_4 = 531 / 10 ^ 40,
      LARGEST_DOUBLE = 10 ^ 300, PI = 314159265358979 / 10 ^ 14\<rparr>"

definition demo_parameters :: parameters where
  "demo_parameters =
     \<lparr>total_time = 5000, tau = 1, loop_length = 4 * 10 ^ 9, rka_error = 1 / 10 ^ 6,
      saturation_limit = 1, c1_cond0 = 6, c1_rad0 = 0.6,
      use_c1_loss_correction = False, use_c1_grav_correction = False,
      use_power_law_radiative_losses = True, use_spitzer_conductivity = False,
      calculate_dem = False, solver = ''rka4'', output_filename = ''ebtel.txt'',
      boltzmann_correction = 1, ion_mass_correction = 1\<rparr>"

definition demo_ctx :: loop_ctx where
  "demo_ctx =
     \<lparr>phys = demo_constants, params = demo_parameters,
      GetPowerLawRad = (\<lambda>x. 19 / 10 ^ 23), Get_Heating = (\<lambda>t. 1 / 100),
      heater_partition = 1 / 2\<rparr>"

text \<open>
  The seven sequences of the results in one list, the row at an index, and the row
  that \<^verbatim>\<open>SaveResults\<close> computes from a state and a time.
\<close>

definition columns :: "results \<Rightarrow> real list list" where
  "columns r =
     [time r, heat r, pressure_e r, pressure_i r, temperature_e r, temperature_i r, density r]"

definition row_at :: "results \<Rightarrow> nat \<Rightarrow> real list" where
  "row_at r k = map (\<lambda>col. col ! k) (columns r)"

definition saved_row :: "loop_ctx \<Rightarrow> real list \<Rightarrow> real \<Rightarrow> real list" where
  "saved_row c s t =
     [t, Get_Heating c t, s ! 0, s ! 1,
      s ! 0 / (BOLTZMANN_CONSTANT (phys c) * s ! 2),
      s ! 1 / (BOLTZMANN_CONSTANT (phys c) * boltzmann_correction (params c) * s ! 2),
      s ! 2]"

text \<open>The same configuration with a tolerance so wide that every attempt is accepted.\<close>

definition wide_ctx :: loop_ctx where
  "wide_ctx = demo_ctx\<lparr>params := demo_parameters\<lparr>rka_error := 2\<rparr>\<rparr>"


definition demo_state :: "real list" where
  "demo_state = [1, 1, 10 ^ 9]"

text \<open>
  A configuration that names no solver of the three and runs for two steps of one
  second, and a loop object with room for its two rows.
\<close>

definition unknown_ctx :: loop_ctx where
  "unknown_ctx = demo_ctx\<lparr>params := demo_parameters\<lparr>solver := ''heun'', total_time := 2\<rparr>\<rparr>"


definition demo_loop :: loop where
  "demo_loop =
     \<lparr>N = 2, excess = None, loop_state = demo_state,
      results = \<lparr>time = [0, 0], heat = [0, 0], pressure_e = [0, 0], pressure_i = [0, 0],
                 temperature_e = [0, 0], temperature_i = [0, 0], density = [0, 0]\<rparr>,
      dem_calls = [], console = []\<rparr>"


text \<open>
  The same configuration with a heating pulse: the rate of \<open>demo_ctx\<close> up to time zero, no
  heating after it.
\<close>

definition pulse_ctx :: loop_ctx where
  "pulse_ctx = demo_ctx\<lparr>Get_Heating := (\<lambda>t. if t \<le> 0 then 1 / 100 else 0)\<rparr>"

text \<open>
  A run with the Euler solver in steps of ten thousand seconds, heated up to time zero
  and not after it; and the property that the three components of a state are positive.
\<close>

definition cold_ctx :: loop_ctx where
  "cold_ctx =
     pulse_ctx\<lparr>params := demo_parameters\<lparr>solver := ''euler'', tau := 10 ^ 4,
                                           total_time := 2 * 10 ^ 4\<rparr>\<rparr>"


text \<open>
  A configuration on which the adaptive solver cannot converge: no tolerance, no
  conductive flux, and a heating rate that jumps from nothing to \<open>10\<^sup>1\<^sup>5\<close> at time zero.
  \<open>near r s\<close> says that the state \<open>s\<close> is within the relative distance \<open>r\<close> of
  \<open>demo_state\<close>.
\<close>

definition unit_step :: "real \<Rightarrow> real" where
  "unit_step t = (if t \<le> 0 then 0 else 1)"

definition stiff_ctx :: loop_ctx where
  "stiff_ctx =
     demo_ctx\<lparr>params := demo_parameters\<lparr>rka_error := 0, saturation_limit := 0\<rparr>,
              Get_Heating := (\<lambda>t. 10 ^ 15 * unit_step t)\<rparr>"

definition near :: "real \<Rightarrow> real list \<Rightarrow> bool" where
  "near r s \<longleftrightarrow>
     length s = 3 \<and> \<bar>s ! 0 - 1\<bar> \<le> r \<and> \<bar>s ! 1 - 1\<bar> \<le> r \<and> \<bar>s ! 2 - 10 ^ 9\<bar> \<le> r * 10 ^ 9"

section \<open>Properties\<close>

subsection \<open>The closure coefficient C1\<close>

lemma c1_branches_at_one: "c1_under_dense cond0 1 = 2 \<and> c1_over_dense rad0 1 = 2"
  by (simp add: c1_under_dense_def c1_over_dense_def)

lemma c1_piecewise_alt:
  "c1_piecewise cond0 rad0 =
     (\<lambda>r. if r \<le> 1 then c1_under_dense cond0 r else c1_over_dense rad0 r)"
  by (rule ext) (simp add: c1_piecewise_def c1_under_dense_def c1_over_dense_def)

lemma isCont_c1_under_dense: "isCont (c1_under_dense cond0) 1"
  unfolding c1_under_dense_def by (intro continuous_intros) simp_all

lemma isCont_c1_over_dense: "isCont (c1_over_dense rad0) 1"
  unfolding c1_over_dense_def by (intro continuous_intros) simp_all

lemma isCont_c1_piecewise: "isCont (c1_piecewise cond0 rad0) 1"
proof -
  have l: "continuous (at_left 1) (c1_under_dense cond0)"
    using isCont_c1_under_dense [of cond0] by (rule continuous_at_imp_continuous_at_within)
  have "(c1_over_dense rad0 \<longlongrightarrow> c1_over_dense rad0 1) (at_right 1)"
    using isCont_c1_over_dense [of rad0]
    by (meson continuous_within continuous_at_imp_continuous_at_within)
  then have r: "(c1_over_dense rad0 \<longlongrightarrow> c1_under_dense cond0 1) (at_right 1)"
    by (simp add: c1_branches_at_one)
  show ?thesis
    unfolding c1_piecewise_alt by (rule isCont_If_ge [OF l r])
qed

lemma CalculateC1_formula:
  "CalculateC1 c Te Ti n =
     c1_loss_correction c Te * c1_grav_correction c Te Ti
       * c1_piecewise (c1_cond0 (params c)) (c1_rad0 (params c))
           (n\<^sup>2 / c1_density_eqm_2 c Te Ti)"
  unfolding CalculateC1_def Let_def c1_loss_correction_def c1_grav_correction_def
    c1_piecewise_def c1_under_dense_def c1_over_dense_def c1_density_eqm_2_def
  by (simp only: mult_ac)

lemma isCont_CalculateC1_density:
  assumes "0 < c1_density_eqm_2 c Te Ti"
  shows "isCont (\<lambda>n. CalculateC1 c Te Ti n) (sqrt (c1_density_eqm_2 c Te Ti))"
proof -
  let ?D = "c1_density_eqm_2 c Te Ti"
  let ?B = "c1_piecewise (c1_cond0 (params c)) (c1_rad0 (params c))"
  have r1: "(sqrt ?D)\<^sup>2 / ?D = 1" using assms by simp
  have "isCont (\<lambda>n. n\<^sup>2 / ?D) (sqrt ?D)"
    using assms by (intro continuous_intros) simp
  moreover have "isCont ?B ((sqrt ?D)\<^sup>2 / ?D)"
    unfolding r1 by (rule isCont_c1_piecewise)
  ultimately have "isCont (\<lambda>n. ?B (n\<^sup>2 / ?D)) (sqrt ?D)"
    by (rule isCont_o2)
  then have "isCont (\<lambda>n. c1_loss_correction c Te * c1_grav_correction c Te Ti
                            * ?B (n\<^sup>2 / ?D)) (sqrt ?D)"
    by (intro continuous_intros)
  then show ?thesis by (simp add: CalculateC1_formula)
qed

text \<open>
  C1. For positive temperatures and density, \<open>CalculateC1\<close> returns the product of the
  loss correction, the gravity correction and the piecewise factor at the density ratio
  \<open>n\<^sup>2 / density_eqm_2\<close>; a correction whose flag is off is 1; the two branch expressions
  are both 2 at ratio 1, so the piecewise factor is continuous there, and the returned
  value, as a function of the density, is continuous where the ratio crosses 1. This
  holds for every \<open>c1_cond0\<close> and \<open>c1_rad0\<close>.
\<close>

theorem CalculateC1_piecewise_continuous:
  assumes "0 < Te" and "0 < Ti" and "0 < n"
  shows "CalculateC1 c Te Ti n =
           c1_loss_correction c Te * c1_grav_correction c Te Ti
             * c1_piecewise (c1_cond0 (params c)) (c1_rad0 (params c))
                 (n\<^sup>2 / c1_density_eqm_2 c Te Ti)
         \<and> (use_c1_loss_correction (params c) \<or> c1_loss_correction c Te = 1)
         \<and> (use_c1_grav_correction (params c) \<or> c1_grav_correction c Te Ti = 1)
         \<and> c1_under_dense (c1_cond0 (params c)) 1 = 2
         \<and> c1_over_dense (c1_rad0 (params c)) 1 = 2
         \<and> isCont (c1_piecewise (c1_cond0 (params c)) (c1_rad0 (params c))) 1
         \<and> (0 < c1_density_eqm_2 c Te Ti \<longrightarrow>
              isCont (CalculateC1 c Te Ti) (sqrt (c1_density_eqm_2 c Te Ti)))"
proof (intro conjI impI)
  show "CalculateC1 c Te Ti n =
          c1_loss_correction c Te * c1_grav_correction c Te Ti
            * c1_piecewise (c1_cond0 (params c)) (c1_rad0 (params c))
                (n\<^sup>2 / c1_density_eqm_2 c Te Ti)"
    by (rule CalculateC1_formula)
  show "use_c1_loss_correction (params c) \<or> c1_loss_correction c Te = 1"
    by (simp add: c1_loss_correction_def)
  show "use_c1_grav_correction (params c) \<or> c1_grav_correction c Te Ti = 1"
    by (simp add: c1_grav_correction_def)
  show "c1_under_dense (c1_cond0 (params c)) 1 = 2"
    and "c1_over_dense (c1_rad0 (params c)) 1 = 2"
    by (simp_all add: c1_branches_at_one)
  show "isCont (c1_piecewise (c1_cond0 (params c)) (c1_rad0 (params c))) 1"
    by (rule isCont_c1_piecewise)
  show "isCont (CalculateC1 c Te Ti) (sqrt (c1_density_eqm_2 c Te Ti))"
    if "0 < c1_density_eqm_2 c Te Ti"
    using that by (rule isCont_CalculateC1_density)
qed

lemma demo_density_eqm_2_pos: "0 < c1_density_eqm_2 demo_ctx (10 ^ 6) (10 ^ 6)"
proof -
  have "0 < ((10 ^ 6 :: real) / CalculateC2) powr 3.5"
    by (simp add: CalculateC2_def)
  then show ?thesis
    by (simp add: c1_density_eqm_2_def c1_loss_correction_def c1_grav_correction_def
          demo_ctx_def demo_parameters_def demo_constants_def)
qed

theorem CalculateC1_piecewise_continuous_witness:
  "(0::real) < 10 ^ 6 \<and> (0::real) < 10 ^ 9
   \<and> CalculateC1 demo_ctx (10 ^ 6) (10 ^ 6) (10 ^ 9) =
       c1_loss_correction demo_ctx (10 ^ 6) * c1_grav_correction demo_ctx (10 ^ 6) (10 ^ 6)
         * c1_piecewise 6 0.6 ((10 ^ 9)\<^sup>2 / c1_density_eqm_2 demo_ctx (10 ^ 6) (10 ^ 6))
   \<and> c1_loss_correction demo_ctx (10 ^ 6) = 1
   \<and> c1_grav_correction demo_ctx (10 ^ 6) (10 ^ 6) = 1
   \<and> c1_under_dense 6 1 = 2 \<and> c1_over_dense 0.6 1 = 2
   \<and> isCont (c1_piecewise 6 0.6) 1
   \<and> isCont (CalculateC1 demo_ctx (10 ^ 6) (10 ^ 6))
        (sqrt (c1_density_eqm_2 demo_ctx (10 ^ 6) (10 ^ 6)))"
proof -
  have p: "(0::real) < 10 ^ 6" "(0::real) < 10 ^ 9" by simp_all
  have f: "c1_cond0 (params demo_ctx) = 6" "c1_rad0 (params demo_ctx) = 0.6"
    "\<not> use_c1_loss_correction (params demo_ctx)"
    "\<not> use_c1_grav_correction (params demo_ctx)"
    by (simp_all add: demo_ctx_def demo_parameters_def)
  show ?thesis
    using CalculateC1_piecewise_continuous [OF p(1) p(1) p(2), of demo_ctx]
      demo_density_eqm_2_pos
    by (simp add: f)
qed

subsection \<open>Thermal conduction\<close>











subsection \<open>The integrators\<close>




lemma and_then_Inr [simp]: "and_then (Inr x) f = f x"
  by (simp add: and_then_def)

lemma and_then_Inl [simp]: "and_then (Inl e) f = Inl e"
  by (simp add: and_then_def)

lemma for_loop_0 [simp]: "for_loop 0 body init = init"
  by (simp add: for_loop_def)

lemma for_loop_Suc: "for_loop (Suc m) body init = body m (for_loop m body init)"
  by (simp add: for_loop_def)

lemma length_for_loop_update [simp]:
  "length (for_loop m (\<lambda>i v. v[i := g i]) v) = length v"
  by (induction m) (simp_all add: for_loop_Suc)

lemma nth_for_loop_update:
  "i < length v \<Longrightarrow>
     for_loop m (\<lambda>i v. v[i := g i]) v ! i = (if i < m then g i else v ! i)"
  by (induction m) (auto simp: for_loop_Suc nth_list_update less_Suc_eq)

lemma CalculateDerivs_Inr:
  assumes "3 \<le> length s"
  obtains d where "CalculateDerivs c s t = Inr d" "length d = 3"
  using assms by (simp add: CalculateDerivs_def Let_def)

lemma RK4Solver_Inr:
  assumes "3 \<le> length s"
  obtains s' where "RK4Solver c s t \<tau> = Inr s'" "length s' = length s"
proof -
  obtain f1 where f1: "CalculateDerivs c s t = Inr f1"
    using assms by (rule CalculateDerivs_Inr)
  let ?tmp1 = "for_loop (length f1) (\<lambda>i tmp. tmp[i := s ! i + \<tau> / 2 * f1 ! i])
                 (replicate (length s) 0)"
  have l1: "3 \<le> length ?tmp1" using assms by simp
  obtain f2 where f2: "CalculateDerivs c ?tmp1 (t + \<tau> / 2) = Inr f2"
    using l1 by (rule CalculateDerivs_Inr)
  let ?tmp2 = "for_loop (length f2) (\<lambda>i tmp. tmp[i := s ! i + \<tau> / 2 * f2 ! i]) ?tmp1"
  have l2: "3 \<le> length ?tmp2" using l1 by simp
  obtain f3 where f3: "CalculateDerivs c ?tmp2 (t + \<tau> / 2) = Inr f3"
    using l2 by (rule CalculateDerivs_Inr)
  let ?tmp3 = "for_loop (length f3) (\<lambda>i tmp. tmp[i := s ! i + \<tau> * f3 ! i]) ?tmp2"
  have l3: "3 \<le> length ?tmp3" using l2 by simp
  obtain f4 where f4: "CalculateDerivs c ?tmp3 (t + \<tau>) = Inr f4"
    using l3 by (rule CalculateDerivs_Inr)
  have "RK4Solver c s t \<tau> = Inr (for_loop (length f4)
              (\<lambda>i new_state. new_state[i := s ! i
                   + \<tau> / 6 * (f1 ! i + 2 * f2 ! i + 2 * f3 ! i + f4 ! i)])
              (replicate (length s) 0))"
    unfolding RK4Solver_def by (simp only: f1 f2 f3 f4 and_then_Inr Let_def)
  then show thesis by (rule that) simp
qed

lemma fold_max_ge: "(x::real) \<le> fold max ys x"
  by (induction ys arbitrary: x) (auto intro: order_trans [OF max.cobounded2])

lemma length_error_ratios [simp]: "length (error_ratios c m small big) = m"
  unfolding error_ratios_def Let_def by simp

lemma error_ratios_nonempty:
  assumes "0 < m"
  shows "error_ratios c m small big \<noteq> []"
proof
  assume "error_ratios c m small big = []"
  then have "length (error_ratios c m small big) = 0" by (simp only: list.size)
  then show False using assms by simp
qed

lemma max_element_Inr:
  assumes "xs \<noteq> []"
  obtains x where "max_element xs = Inr x"
  using assms by (cases xs) (simp_all add: max_element_def)

lemma rka4_attempt_Inr:
  assumes "3 \<le> length s"
  obtains small er where "rka4_attempt c s t \<tau> = Inr (small, er)" "length small = length s"
proof -
  obtain half where h: "RK4Solver c s t (\<tau> * 0.5) = Inr half" "length half = length s"
    using assms by (rule RK4Solver_Inr)
  from h(2) assms have "3 \<le> length half" by simp
  then obtain small where sm: "RK4Solver c half (t + \<tau> * 0.5) (\<tau> * 0.5) = Inr small"
      "length small = length half"
    by (rule RK4Solver_Inr)
  obtain big where b: "RK4Solver c s t \<tau> = Inr big"
    using assms by (rule RK4Solver_Inr)
  have "0 < length s" using assms by linarith
  then have "error_ratios c (length s) small big \<noteq> []"
    by (rule error_ratios_nonempty)
  then obtain er where er: "max_element (error_ratios c (length s) small big) = Inr er"
    by (rule max_element_Inr)
  have "rka4_attempt c s t \<tau> = Inr (small, er)"
    unfolding rka4_attempt_def by (simp only: h(1) sm(1) b er and_then_Inr)
  moreover have "length small = length s" using sm(2) h(2) by simp
  ultimately show thesis by (rule that)
qed


lemma estimate_tau_failed:
  assumes "0 < \<tau>" "1 \<le> er"
  shows "estimate_tau \<tau> er = Finite (\<tau> / 1.1)"
proof -
  have "er powr (- 1 / 5) \<le> 1"
    using powr_mono [of "- 1 / 5" 0 er] assms(2) by simp
  then have "0.9 * \<tau> * er powr (- 1 / 5) \<le> 0.9 * \<tau> * 1"
    using assms(1) by (intro mult_left_mono) simp_all
  also have "\<dots> \<le> \<tau> / 1.1" using assms(1) by simp
  finally show ?thesis using assms(2) by (simp add: estimate_tau_def max_def)
qed

lemma fmin_estimate_bounds:
  assumes "0 < \<tau>"
  shows "\<tau> / 1.1 \<le> fmin_tau (estimate_tau \<tau> er) (4 * \<tau>)"
    and "fmin_tau (estimate_tau \<tau> er) (4 * \<tau>) \<le> 4 * \<tau>"
  using assms by (auto simp: estimate_tau_def)

lemma fmin_estimate_value:
  assumes "0 < \<tau>"
  shows "fmin_tau (estimate_tau \<tau> er) (4 * \<tau>) =
           (if 0 < er then min (max (0.9 * \<tau> * er powr (- 1 / 5)) (\<tau> / 1.1)) (4 * \<tau>)
            else if er = 0 then 4 * \<tau> else \<tau> / 1.1)"
  using assms by (auto simp: estimate_tau_def)


lemma for_loop_update_eq_map:
  "for_loop m (\<lambda>j v. v[j := g j]) (replicate m (0::real)) = map g [0..<m]"
  by (rule nth_equalityI) (simp_all add: nth_for_loop_update)

lemma error_ratios_eq_map:
  "error_ratios c m small big = map (component_error_ratio c small big) [0..<m]"
  unfolding error_ratios_def Let_def component_error_ratio_def
  by (rule for_loop_update_eq_map)

lemma max_element_Max:
  assumes "xs \<noteq> []"
  shows "max_element xs = Inr (Max (set xs))"
proof (cases xs)
  case Nil
  with assms show ?thesis by simp
next
  case (Cons x ys)
  have "Max (set (x # ys)) = fold max ys x" by (rule Max.set_eq_fold)
  then show ?thesis unfolding Cons by (simp add: max_element_def)
qed

lemma max_element_error_ratios:
  assumes "0 < length small"
  shows "max_element (error_ratios c (length small) small big) = Inr (worst_error_ratio c small big)"
proof -
  have "error_ratios c (length small) small big \<noteq> []"
    using assms by (rule error_ratios_nonempty)
  then have "max_element (error_ratios c (length small) small big)
               = Inr (Max (set (error_ratios c (length small) small big)))"
    by (rule max_element_Max)
  also have "set (error_ratios c (length small) small big)
               = component_error_ratio c small big ` {..<length small}"
    by (simp add: error_ratios_eq_map atLeast0LessThan)
  finally show ?thesis by (simp only: worst_error_ratio_def)
qed

lemma rka4_attempt_iff:
  assumes "3 \<le> length s"
  shows "rka4_attempt c s t \<tau> = Inr (small, er) \<longleftrightarrow> attempt_at c s t \<tau> small er"
proof -
  obtain half where h: "RK4Solver c s t (\<tau> * 0.5) = Inr half" "length half = length s"
    using assms by (rule RK4Solver_Inr)
  from h(2) assms have "3 \<le> length half" by simp
  then obtain sm where sm: "RK4Solver c half (t + \<tau> * 0.5) (\<tau> * 0.5) = Inr sm"
      "length sm = length half"
    by (rule RK4Solver_Inr)
  obtain big where b: "RK4Solver c s t \<tau> = Inr big"
    using assms by (rule RK4Solver_Inr)
  have l: "length s = length sm" "0 < length sm" using sm(2) h(2) assms by linarith+
  have er: "max_element (error_ratios c (length s) sm big) = Inr (worst_error_ratio c sm big)"
    unfolding l(1) using l(2) by (rule max_element_error_ratios)
  have a: "rka4_attempt c s t \<tau> = Inr (sm, worst_error_ratio c sm big)"
    unfolding rka4_attempt_def by (simp only: h(1) sm(1) b er and_then_Inr)
  show ?thesis
  proof
    assume "rka4_attempt c s t \<tau> = Inr (small, er)"
    with a have "small = sm" "er = worst_error_ratio c sm big" by simp_all
    with h(1) sm(1) b show "attempt_at c s t \<tau> small er"
      unfolding attempt_at_def by blast
  next
    assume "attempt_at c s t \<tau> small er"
    then obtain half' big' where
      x: "RK4Solver c s t (\<tau> * 0.5) = Inr half'"
         "RK4Solver c half' (t + \<tau> * 0.5) (\<tau> * 0.5) = Inr small"
         "RK4Solver c s t \<tau> = Inr big'" "er = worst_error_ratio c small big'"
      unfolding attempt_at_def by blast
    from x(1) h(1) have "half' = half" by simp
    with x(2) sm(1) have "small = sm" by simp
    moreover from x(3) b have "big' = big" by simp
    ultimately show "rka4_attempt c s t \<tau> = Inr (small, er)"
      using a x(4) by simp
  qed
qed

lemma rka4_loop_accepted:
  assumes "3 \<le> length s" and "0 < \<tau>" and "rka4_loop c s t k \<tau> prev = Inr (v, [])"
  shows "\<exists>j<k. \<exists>small er. rka4_attempt c s t (\<tau> / 1.1 ^ j) = Inr (small, er) \<and> er < 1
           \<and> v = small @ [fmin_tau (estimate_tau (\<tau> / 1.1 ^ j) er) (4 * (\<tau> / 1.1 ^ j))]"
  using assms(2,3)
proof (induction k arbitrary: \<tau> prev)
  case 0
  then show ?case by (simp split: option.splits prod.splits add: Let_def)
next
  case (Suc k)
  obtain small er where a: "rka4_attempt c s t \<tau> = Inr (small, er)"
    using assms(1) by (rule rka4_attempt_Inr)
  show ?case
  proof (cases "er < 1")
    case True
    with Suc.prems a have "v = small @ [fmin_tau (estimate_tau \<tau> er) (4 * \<tau>)]"
      by (simp add: Let_def)
    with a True have "rka4_attempt c s t (\<tau> / 1.1 ^ 0) = Inr (small, er) \<and> er < 1
           \<and> v = small @ [fmin_tau (estimate_tau (\<tau> / 1.1 ^ 0) er) (4 * (\<tau> / 1.1 ^ 0))]"
      by simp
    then show ?thesis by blast
  next
    case False
    then have e: "estimate_tau \<tau> er = Finite (\<tau> / 1.1)"
      using Suc.prems(1) by (intro estimate_tau_failed) simp_all
    from Suc.prems(2) a False e
    have r: "rka4_loop c s t k (\<tau> / 1.1) (Some (small, \<tau>)) = Inr (v, [])"
      by (simp add: Let_def)
    have "0 < \<tau> / 1.1" using Suc.prems(1) by simp
    from Suc.IH [OF this r] obtain j small' er' where j: "j < k"
      "rka4_attempt c s t (\<tau> / 1.1 / 1.1 ^ j) = Inr (small', er')" "er' < 1"
      "v = small' @ [fmin_tau (estimate_tau (\<tau> / 1.1 / 1.1 ^ j) er') (4 * (\<tau> / 1.1 / 1.1 ^ j))]"
      by blast
    have "\<tau> / 1.1 / 1.1 ^ j = \<tau> / 1.1 ^ Suc j" by simp
    with j have "Suc j < Suc k \<and> rka4_attempt c s t (\<tau> / 1.1 ^ Suc j) = Inr (small', er') \<and> er' < 1
       \<and> v = small' @ [fmin_tau (estimate_tau (\<tau> / 1.1 ^ Suc j) er') (4 * (\<tau> / 1.1 ^ Suc j))]"
      by simp
    then show ?thesis by blast
  qed
qed


lemma rka4_loop_all_failed:
  assumes "0 < \<tau>"
    and "\<forall>j<Suc k. \<exists>small er. rka4_attempt c s t (\<tau> / 1.1 ^ j) = Inr (small, er) \<and> 1 \<le> er"
  shows "\<exists>small er. rka4_attempt c s t (\<tau> / 1.1 ^ k) = Inr (small, er) \<and> 1 \<le> er
           \<and> rka4_loop c s t (Suc k) \<tau> prev =
               Inr (small @ [min (\<tau> / 1.1 ^ Suc k) (4 * (\<tau> / 1.1 ^ k))],
                    [Warning_not_converged,
                     Returning_tau (min (\<tau> / 1.1 ^ Suc k) (4 * (\<tau> / 1.1 ^ k))) t])"
  using assms
proof (induction k arbitrary: \<tau> prev)
  case 0
  then obtain small er where a: "rka4_attempt c s t \<tau> = Inr (small, er)" "1 \<le> er"
    by auto
  have e: "estimate_tau \<tau> er = Finite (\<tau> / 1.1)"
    using "0.prems"(1) a(2) by (rule estimate_tau_failed)
  show ?case using a e by (simp add: Let_def)
next
  case (Suc k)
  from Suc.prems(2) have "\<exists>small er. rka4_attempt c s t (\<tau> / 1.1 ^ 0) = Inr (small, er) \<and> 1 \<le> er"
    by blast
  then obtain small er where a: "rka4_attempt c s t \<tau> = Inr (small, er)" "1 \<le> er"
    by auto
  have e: "estimate_tau \<tau> er = Finite (\<tau> / 1.1)"
    using Suc.prems(1) a(2) by (rule estimate_tau_failed)
  have r: "rka4_loop c s t (Suc (Suc k)) \<tau> prev
             = rka4_loop c s t (Suc k) (\<tau> / 1.1) (Some (small, \<tau>))"
    using a e by (simp add: Let_def)
  have q: "0 < \<tau> / 1.1" using Suc.prems(1) by simp
  have sh: "\<tau> / 1.1 / 1.1 ^ j = \<tau> / 1.1 ^ Suc j" for j by simp
  have "\<forall>j<Suc k. \<exists>small er. rka4_attempt c s t (\<tau> / 1.1 / 1.1 ^ j) = Inr (small, er) \<and> 1 \<le> er"
  proof (intro allI impI)
    fix j assume "j < Suc k"
    then have "Suc j < Suc (Suc k)" by simp
    with Suc.prems(2) show "\<exists>small er. rka4_attempt c s t (\<tau> / 1.1 / 1.1 ^ j) = Inr (small, er) \<and> 1 \<le> er"
      unfolding sh by blast
  qed
  from Suc.IH [OF q this, of "Some (small, \<tau>)"] show ?case
    unfolding r sh .
qed


lemma component_error_ratio_nonneg:
  assumes "0 \<le> rka_error (params c)"
  shows "0 \<le> component_error_ratio c small big j"
proof -
  have "0 \<le> rka_error (params c) * (\<bar>small ! j\<bar> + \<bar>big ! j\<bar>) / 2"
    using assms by simp
  then have "0 < rka_error (params c) * (\<bar>small ! j\<bar> + \<bar>big ! j\<bar>) / 2 + 1 / 10 ^ 16"
    by (rule add_nonneg_pos) simp
  then show ?thesis
    unfolding component_error_ratio_def by (intro divide_nonneg_pos) simp_all
qed

lemma worst_error_ratio_nonneg:
  assumes "0 \<le> rka_error (params c)" and "0 < length small"
  shows "0 \<le> worst_error_ratio c small big"
proof -
  let ?A = "component_error_ratio c small big ` {..<length small}"
  have "finite ?A" by simp
  moreover have "?A \<noteq> {}" using assms(2) by auto
  ultimately have "Max ?A \<in> ?A" by (rule Max_in)
  then obtain j where "Max ?A = component_error_ratio c small big j" by blast
  then show ?thesis
    using component_error_ratio_nonneg [OF assms(1), of small big j]
    by (simp add: worst_error_ratio_def)
qed

lemma attempt_at_length:
  assumes "attempt_at c s t \<tau> small r" and "3 \<le> length s"
  shows "length small = length s"
proof -
  from assms obtain er' small' where
    "rka4_attempt c s t \<tau> = Inr (small', er')" "length small' = length s"
    using rka4_attempt_Inr [of s c t \<tau>] by blast
  moreover from assms have "rka4_attempt c s t \<tau> = Inr (small, r)"
    by (simp add: rka4_attempt_iff)
  ultimately show ?thesis by simp
qed

lemma attempt_at_nonneg:
  assumes "attempt_at c s t \<tau> small r" and "3 \<le> length s" and "0 \<le> rka_error (params c)"
  shows "0 \<le> r"
proof -
  have "0 < length small" using attempt_at_length [OF assms(1,2)] assms(2) by linarith
  with assms(1,3) show ?thesis
    unfolding attempt_at_def using worst_error_ratio_nonneg by blast
qed

text \<open>
  C2. A call of \<open>RKA4Solver\<close> with a positive step size and a positive tolerance that
  returns from inside its attempt loop (nothing is printed on that path) has accepted an
  attempt \<open>k < 100\<close> at the step size \<open>\<tau>_att = \<tau> / 1.1 ^ k\<close>: the worst-case error ratio \<open>r\<close>
  of that attempt is below 1, the returned state is the result of its two half steps,
  and the returned step size lies between \<open>\<tau>_att / 1.1\<close> and \<open>4 \<tau>_att\<close> and is
  \<open>min (max (0.9 \<tau>_att r powr (-1/5)) (\<tau>_att / 1.1)) (4 \<tau>_att)\<close>, which at \<open>r = 0\<close>, where the
  power is infinite, is \<open>4 \<tau>_att\<close>.
\<close>

theorem RKA4Solver_accepted_step:
  assumes "3 \<le> length state" and "0 < \<tau>" and "0 < rka_error (params c)"
    and "RKA4Solver c state t \<tau> = Inr (v, [])"
  shows "\<exists>k \<tau>_att small r.
           k < 100 \<and> \<tau>_att = \<tau> / 1.1 ^ k \<and> attempt_at c state t \<tau>_att small r
           \<and> 0 \<le> r \<and> r < 1 \<and> butlast v = small
           \<and> \<tau>_att / 1.1 \<le> last v \<and> last v \<le> 4 * \<tau>_att
           \<and> last v = (if 0 < r
                        then min (max (0.9 * \<tau>_att * r powr (- 1 / 5)) (\<tau>_att / 1.1))
                               (4 * \<tau>_att)
                        else 4 * \<tau>_att)"
proof -
  from assms(4) have "rka4_loop c state t 100 \<tau> None = Inr (v, [])"
    by (simp add: RKA4Solver_def)
  from rka4_loop_accepted [OF assms(1,2) this]
  obtain k small r where k: "k < 100"
    and a: "rka4_attempt c state t (\<tau> / 1.1 ^ k) = Inr (small, r)" and r: "r < 1"
    and v: "v = small @ [fmin_tau (estimate_tau (\<tau> / 1.1 ^ k) r) (4 * (\<tau> / 1.1 ^ k))]"
    by blast
  let ?a = "\<tau> / 1.1 ^ k"
  have p: "0 < ?a" using assms(2) by simp
  have at: "attempt_at c state t ?a small r"
    using a assms(1) by (simp add: rka4_attempt_iff)
  have nn: "0 \<le> r"
    using at assms(1,3) by (intro attempt_at_nonneg [of c state t ?a small r]) simp_all
  have l: "last v = fmin_tau (estimate_tau ?a r) (4 * ?a)" and b: "butlast v = small"
    using v by simp_all
  have val: "last v = (if 0 < r then min (max (0.9 * ?a * r powr (- 1 / 5)) (?a / 1.1)) (4 * ?a)
                       else 4 * ?a)"
    unfolding l fmin_estimate_value [OF p] using nn by simp
  have "?a / 1.1 \<le> last v" "last v \<le> 4 * ?a"
    unfolding l using fmin_estimate_bounds [OF p] by blast+
  with k at nn r b val show ?thesis by blast
qed

text \<open>
  C4. When none of the 100 attempts reaches an error ratio below 1, \<open>RKA4Solver\<close> does
  not fail: it prints the warning and returns the small-step result of the last attempt
  followed by the last computed step size capped at four times the step size of that
  attempt.
\<close>

theorem RKA4Solver_not_converged:
  assumes "3 \<le> length state" and "0 < \<tau>"
    and "\<forall>k<100. \<exists>small r. attempt_at c state t (\<tau> / 1.1 ^ k) small r \<and> 1 \<le> r"
  shows "\<exists>\<tau>_prev small r \<tau>_new.
           \<tau>_prev = \<tau> / 1.1 ^ 99 \<and> attempt_at c state t \<tau>_prev small r
           \<and> \<tau>_new = min (max (0.9 * \<tau>_prev * r powr (- 1 / 5)) (\<tau>_prev / 1.1)) (4 * \<tau>_prev)
           \<and> RKA4Solver c state t \<tau> =
               Inr (small @ [\<tau>_new], [Warning_not_converged, Returning_tau \<tau>_new t])"
proof -
  have "\<forall>j<Suc 99. \<exists>small er. rka4_attempt c state t (\<tau> / 1.1 ^ j) = Inr (small, er) \<and> 1 \<le> er"
    using assms(3,1) by (simp add: rka4_attempt_iff)
  from rka4_loop_all_failed [OF assms(2) this, of None]
  obtain small r where a: "rka4_attempt c state t (\<tau> / 1.1 ^ 99) = Inr (small, r)"
    and r: "1 \<le> r"
    and l: "rka4_loop c state t (Suc 99) \<tau> None =
              Inr (small @ [min (\<tau> / 1.1 ^ Suc 99) (4 * (\<tau> / 1.1 ^ 99))],
                   [Warning_not_converged,
                    Returning_tau (min (\<tau> / 1.1 ^ Suc 99) (4 * (\<tau> / 1.1 ^ 99))) t])"
    by blast
  let ?p = "\<tau> / 1.1 ^ 99"
  have p: "0 < ?p" using assms(2) by simp
  have "estimate_tau ?p r = Finite (?p / 1.1)"
    using p r by (rule estimate_tau_failed)
  then have "max (0.9 * ?p * r powr (- 1 / 5)) (?p / 1.1) = ?p / 1.1"
    using r by (simp add: estimate_tau_def)
  also have "?p / 1.1 = \<tau> / 1.1 ^ Suc 99"
    by (simp only: power_Suc divide_divide_eq_left mult.commute)
  finally have m: "max (0.9 * ?p * r powr (- 1 / 5)) (?p / 1.1) = \<tau> / 1.1 ^ Suc 99" .
  have at: "attempt_at c state t ?p small r"
    using a assms(1) by (simp add: rka4_attempt_iff)
  have "RKA4Solver c state t \<tau> = rka4_loop c state t (Suc 99) \<tau> None"
    by (simp add: RKA4Solver_def)
  then have "RKA4Solver c state t \<tau> =
      Inr (small @ [min (max (0.9 * ?p * r powr (- 1 / 5)) (?p / 1.1)) (4 * ?p)],
           [Warning_not_converged,
            Returning_tau (min (max (0.9 * ?p * r powr (- 1 / 5)) (?p / 1.1)) (4 * ?p)) t])"
    unfolding m l .
  with at show ?thesis by blast
qed

lemma component_error_ratio_wide:
  assumes "2 \<le> rka_error (params c)"
  shows "component_error_ratio c small big j < 1"
proof -
  let ?m = "\<bar>small ! j\<bar> + \<bar>big ! j\<bar>"
  have "\<bar>small ! j - big ! j\<bar> \<le> ?m" by simp
  also have "?m = 2 * ?m / 2" by simp
  also have "\<dots> \<le> rka_error (params c) * ?m / 2"
    using assms by (intro divide_right_mono mult_right_mono) simp_all
  also have "\<dots> < rka_error (params c) * ?m / 2 + 1 / 10 ^ 16" by simp
  finally have lt: "\<bar>small ! j - big ! j\<bar> < rka_error (params c) * ?m / 2 + 1 / 10 ^ 16" .
  moreover have "0 \<le> \<bar>small ! j - big ! j\<bar>" by simp
  ultimately have "0 < rka_error (params c) * ?m / 2 + 1 / 10 ^ 16" by linarith
  with lt show ?thesis unfolding component_error_ratio_def by simp
qed

lemma worst_error_ratio_wide:
  assumes "2 \<le> rka_error (params c)" and "0 < length small"
  shows "worst_error_ratio c small big < 1"
proof -
  let ?A = "component_error_ratio c small big ` {..<length small}"
  have "finite ?A" by simp
  moreover have "?A \<noteq> {}" using assms(2) by auto
  ultimately have "Max ?A \<in> ?A" by (rule Max_in)
  then obtain j where "Max ?A = component_error_ratio c small big j" by blast
  then show ?thesis
    using component_error_ratio_wide [OF assms(1), of small big j]
    by (simp add: worst_error_ratio_def)
qed

lemma RKA4Solver_wide:
  assumes "3 \<le> length s" and "2 \<le> rka_error (params c)"
  shows "\<exists>v. RKA4Solver c s t \<tau> = Inr (v, [])"
proof -
  obtain small r where a: "rka4_attempt c s t \<tau> = Inr (small, r)" "length small = length s"
    using assms(1) by (rule rka4_attempt_Inr)
  then have "attempt_at c s t \<tau> small r" using assms(1) by (simp add: rka4_attempt_iff)
  then obtain big where "r = worst_error_ratio c small big"
    unfolding attempt_at_def by blast
  moreover have "0 < length small" using a(2) assms(1) by linarith
  ultimately have "r < 1" using worst_error_ratio_wide [OF assms(2)] by simp
  have "rka4_loop c s t (Suc k) \<tau> None
          = Inr (small @ [fmin_tau (estimate_tau \<tau> r) (4 * \<tau>)], [])" for k
    using a(1) \<open>r < 1\<close> by (simp add: Let_def)
  from this [of 99] show ?thesis by (simp add: RKA4Solver_def)
qed

theorem RKA4Solver_accepted_step_witness:
  "3 \<le> length demo_state \<and> (0::real) < 1 \<and> 0 < rka_error (params wide_ctx)
   \<and> RKA4Solver wide_ctx demo_state 0 1
       = Inr (fst (projr (RKA4Solver wide_ctx demo_state 0 1)), [])
   \<and> (\<exists>k \<tau>_att small r.
         k < 100 \<and> \<tau>_att = 1 / 1.1 ^ k \<and> attempt_at wide_ctx demo_state 0 \<tau>_att small r
         \<and> 0 \<le> r \<and> r < 1
         \<and> butlast (fst (projr (RKA4Solver wide_ctx demo_state 0 1))) = small
         \<and> \<tau>_att / 1.1 \<le> last (fst (projr (RKA4Solver wide_ctx demo_state 0 1)))
         \<and> last (fst (projr (RKA4Solver wide_ctx demo_state 0 1))) \<le> 4 * \<tau>_att
         \<and> last (fst (projr (RKA4Solver wide_ctx demo_state 0 1)))
             = (if 0 < r
                then min (max (0.9 * \<tau>_att * r powr (- 1 / 5)) (\<tau>_att / 1.1)) (4 * \<tau>_att)
                else 4 * \<tau>_att))"
proof -
  have l: "3 \<le> length demo_state" by (simp add: demo_state_def)
  have e: "rka_error (params wide_ctx) = 2"
    by (simp add: wide_ctx_def)
  have p: "0 < rka_error (params wide_ctx)" "2 \<le> rka_error (params wide_ctx)"
    by (simp_all add: e)
  have o: "(0::real) < 1" by simp
  obtain v where "RKA4Solver wide_ctx demo_state 0 1 = Inr (v, [])"
    using RKA4Solver_wide [OF l p(2)] by blast
  then have r: "RKA4Solver wide_ctx demo_state 0 1
                  = Inr (fst (projr (RKA4Solver wide_ctx demo_state 0 1)), [])"
    by simp
  show ?thesis
    using RKA4Solver_accepted_step [OF l o p(1) r] l o p(1) r by blast
qed

subsection \<open>Saving rows and the body of the time loop\<close>



lemma set_at_Inr:
  assumes "0 \<le> i" and "nat i < length v"
  shows "set_at v i x = Inr (v[nat i := x])"
  using assms by (simp add: set_at_def)

lemma SaveResults_append:
  assumes "3 \<le> length (loop_state l)" and "N l \<le> i"
  shows "SaveResults c l i t = Inr (l\<lparr>results :=
           \<lparr>time = time (results l) @ [saved_row c (loop_state l) t ! 0],
            heat = heat (results l) @ [saved_row c (loop_state l) t ! 1],
            pressure_e = pressure_e (results l) @ [saved_row c (loop_state l) t ! 2],
            pressure_i = pressure_i (results l) @ [saved_row c (loop_state l) t ! 3],
            temperature_e = temperature_e (results l) @ [saved_row c (loop_state l) t ! 4],
            temperature_i = temperature_i (results l) @ [saved_row c (loop_state l) t ! 5],
            density = density (results l) @ [saved_row c (loop_state l) t ! 6]\<rparr>\<rparr>)"
  using assms by (simp add: SaveResults_def Let_def saved_row_def)

lemma SaveResults_in_place:
  assumes "3 \<le> length (loop_state l)" and "i < N l" and "0 \<le> i"
    and "equal_lengths (results l) m" and "nat i < m"
  shows "SaveResults c l i t = Inr (l\<lparr>results :=
           \<lparr>time = (time (results l))[nat i := saved_row c (loop_state l) t ! 0],
            heat = (heat (results l))[nat i := saved_row c (loop_state l) t ! 1],
            pressure_e = (pressure_e (results l))[nat i := saved_row c (loop_state l) t ! 2],
            pressure_i = (pressure_i (results l))[nat i := saved_row c (loop_state l) t ! 3],
            temperature_e = (temperature_e (results l))[nat i := saved_row c (loop_state l) t ! 4],
            temperature_i = (temperature_i (results l))[nat i := saved_row c (loop_state l) t ! 5],
            density = (density (results l))[nat i := saved_row c (loop_state l) t ! 6]\<rparr>\<rparr>)"
  using assms
  by (simp add: SaveResults_def Let_def saved_row_def set_at_def equal_lengths_def and_then_def)

lemma SaveResults_rows:
  assumes "3 \<le> length (loop_state l)" and "rows_inv l i"
  shows "\<exists>l'. SaveResults c l i t = Inr l' \<and> l' = l\<lparr>results := results l'\<rparr>
           \<and> rows_inv l' (i + 1)
           \<and> columns (results l') =
               (if i < N l
                then map2 (\<lambda>col x. col[nat i := x]) (columns (results l))
                       (saved_row c (loop_state l) t)
                else map2 (\<lambda>col x. col @ [x]) (columns (results l))
                       (saved_row c (loop_state l) t))"
proof (cases "i < N l")
  case True
  from assms(2) have i: "0 \<le> i" and e: "equal_lengths (results l) (nat (max (N l) i))"
    and n: "0 \<le> N l"
    by (simp_all add: rows_inv_def)
  have m: "nat i < nat (max (N l) i)" using True i by simp
  have m': "nat (max (N l) (i + 1)) = nat (max (N l) i)" using True by simp
  show ?thesis
    unfolding SaveResults_in_place [OF assms(1) True i e m]
    using True e i n
    by (simp add: rows_inv_def equal_lengths_def columns_def saved_row_def m')
next
  case False
  from assms(2) have i: "0 \<le> i" and e: "equal_lengths (results l) (nat (max (N l) i))"
    and n: "0 \<le> N l"
    by (simp_all add: rows_inv_def)
  have le: "N l \<le> i" using False by simp
  have m': "nat (max (N l) (i + 1)) = Suc (nat (max (N l) i))" using le i by simp
  show ?thesis
    unfolding SaveResults_append [OF assms(1) le]
    using False e i n
    by (simp add: rows_inv_def equal_lengths_def columns_def saved_row_def m')
qed

lemma SaveResults_row_at:
  assumes "3 \<le> length (loop_state l)" and "rows_inv l i" and "SaveResults c l i t = Inr l'"
  shows "row_at (results l') (nat i) = saved_row c (loop_state l) t"
proof (cases "i < N l")
  case True
  from assms(2) have i: "0 \<le> i" and e: "equal_lengths (results l) (nat (max (N l) i))"
    by (simp_all add: rows_inv_def)
  have m: "nat i < nat (max (N l) i)" using True i by simp
  show ?thesis
    using assms(3) e m unfolding SaveResults_in_place [OF assms(1) True i e m]
    by (auto simp: row_at_def columns_def saved_row_def equal_lengths_def)
next
  case False
  from assms(2) have i: "0 \<le> i" and e: "equal_lengths (results l) (nat (max (N l) i))"
    by (simp_all add: rows_inv_def)
  have le: "N l \<le> i" using False by simp
  then have m: "nat (max (N l) i) = nat i" by simp
  show ?thesis
    using assms(3) e unfolding SaveResults_append [OF assms(1) le] m
    by (auto simp: row_at_def columns_def saved_row_def equal_lengths_def nth_append)
qed


lemma dem_step_Inr:
  assumes "3 \<le> length (loop_state l)"
  shows "\<exists>l'. dem_step c l i = Inr l' \<and> l' = l\<lparr>dem_calls := dem_calls l'\<rparr>"
  using assms by (simp add: dem_step_def Let_def)

lemma frame_dem_calls:
  assumes "l' = l\<lparr>dem_calls := d\<rparr>"
  shows "loop_state l' = loop_state l" and "results l' = results l" and "N l' = N l"
    and "rows_inv l' i = rows_inv l i"
  using assms by (simp_all add: rows_inv_def)

lemma frame_results:
  assumes "l' = l\<lparr>results := r\<rparr>"
  shows "loop_state l' = loop_state l" and "N l' = N l" and "excess l' = excess l"
  using assms by simp_all

lemma evolve_body_after_dispatch:
  assumes d: "solver_dispatch c l t \<tau> = Inr (l1, \<tau>1)"
    and s: "3 \<le> length (loop_state l1)" and r: "rows_inv l1 i"
  shows "\<exists>l2 l'. evolve_body c (l, i, t, \<tau>) = Inr (l', i + 1, t + \<tau>1, \<tau>1)
           \<and> dem_step c l1 i = Inr l2 \<and> SaveResults c l2 i t = Inr l'
           \<and> loop_state l' = loop_state l1 \<and> rows_inv l' (i + 1) \<and> N l' = N l1
           \<and> row_at (results l') (nat i) = saved_row c (loop_state l1) t"
proof -
  obtain l2 where l2: "dem_step c l1 i = Inr l2" "l2 = l1\<lparr>dem_calls := dem_calls l2\<rparr>"
    using dem_step_Inr [OF s] by blast
  have s2: "3 \<le> length (loop_state l2)" and r2: "rows_inv l2 i"
    using frame_dem_calls [OF l2(2)] s r by simp_all
  obtain l' where l': "SaveResults c l2 i t = Inr l'" "l' = l2\<lparr>results := results l'\<rparr>"
      "rows_inv l' (i + 1)"
    using SaveResults_rows [OF s2 r2] by blast
  have row: "row_at (results l') (nat i) = saved_row c (loop_state l2) t"
    using s2 r2 l'(1) by (rule SaveResults_row_at)
  have e: "evolve_body c (l, i, t, \<tau>) = Inr (l', i + 1, t + \<tau>1, \<tau>1)"
    by (simp add: evolve_body_def d l2(1) l'(1))
  have "loop_state l' = loop_state l1" "N l' = N l1"
    using frame_results [OF l'(2)] frame_dem_calls [OF l2(2)] by simp_all
  with e l2(1) l'(1,3) row frame_dem_calls(1) [OF l2(2)] show ?thesis by simp
qed

lemma solver_dispatch_unknown:
  assumes "solver (params c) \<noteq> ''euler''" and "solver (params c) \<noteq> ''rk4''"
    and "solver (params c) \<noteq> ''rka4''"
  shows "solver_dispatch c l t \<tau> = Inr (l, \<tau>)"
  using assms by (simp add: solver_dispatch_def)


subsection \<open>An unknown solver\<close>


lemma evolve_while_unknown:
  assumes u: "solver (params c) \<noteq> ''euler''" "solver (params c) \<noteq> ''rk4''"
      "solver (params c) \<noteq> ''rka4''"
    and "3 \<le> length (loop_state l)" and "rows_inv l i"
    and "evolve_while fuel c (l, i, t, \<tau>) = Inr (l', i', t', \<tau>')"
  shows "loop_state l' = loop_state l \<and> \<tau>' = \<tau> \<and> i \<le> i' \<and> t' = t + of_int (i' - i) * \<tau>"
  using assms(4-)
proof (induction fuel arbitrary: l i t)
  case 0
  then show ?case by (simp split: if_splits)
next
  case (Suc k)
  show ?case
  proof (cases "t < total_time (params c)")
    case False
    with Suc.prems(3) show ?thesis by simp
  next
    case True
    have d: "solver_dispatch c l t \<tau> = Inr (l, \<tau>)" using u by (rule solver_dispatch_unknown)
    from evolve_body_after_dispatch [OF d Suc.prems(1,2)]
    obtain l1 where b: "evolve_body c (l, i, t, \<tau>) = Inr (l1, i + 1, t + \<tau>, \<tau>)"
      "loop_state l1 = loop_state l" "rows_inv l1 (i + 1)"
      by blast
    from Suc.prems(3) True b(1)
    have w: "evolve_while k c (l1, i + 1, t + \<tau>, \<tau>) = Inr (l', i', t', \<tau>')"
      by simp
    have s1: "3 \<le> length (loop_state l1)" using b(2) Suc.prems(1) by simp
    from Suc.IH [OF s1 b(3) w] b(2) show ?thesis
      by (simp add: algebra_simps)
  qed
qed

text \<open>
  C9. When the configured solver is none of \<^verbatim>\<open>euler\<close>, \<^verbatim>\<open>rk4\<close> and \<^verbatim>\<open>rka4\<close>, a pass of the
  loop of \<open>EvolveLoop\<close> leaves the state vector as it was, saves a row for the pass and
  advances the time by \<open>\<tau>\<close>; so however many passes the loop makes, the state at its end
  is the state at its start.
\<close>

theorem EvolveLoop_unknown_solver:
  assumes "solver (params c) \<noteq> ''euler''" and "solver (params c) \<noteq> ''rk4''"
    and "solver (params c) \<noteq> ''rka4''"
    and "3 \<le> length (loop_state l)" and "rows_inv l i"
  shows "(\<exists>l'. evolve_body c (l, i, t, \<tau>) = Inr (l', i + 1, t + \<tau>, \<tau>)
            \<and> loop_state l' = loop_state l
            \<and> row_at (results l') (nat i) = saved_row c (loop_state l) t)
         \<and> (\<forall>fuel l' i' t' \<tau>'.
               evolve_while fuel c (l, i, t, \<tau>) = Inr (l', i', t', \<tau>') \<longrightarrow>
               loop_state l' = loop_state l \<and> \<tau>' = \<tau> \<and> t' = t + of_int (i' - i) * \<tau>)"
proof (intro conjI allI impI)
  have d: "solver_dispatch c l t \<tau> = Inr (l, \<tau>)"
    using assms(1-3) by (rule solver_dispatch_unknown)
  from evolve_body_after_dispatch [OF d assms(4,5)]
  show "\<exists>l'. evolve_body c (l, i, t, \<tau>) = Inr (l', i + 1, t + \<tau>, \<tau>)
            \<and> loop_state l' = loop_state l
            \<and> row_at (results l') (nat i) = saved_row c (loop_state l) t"
    by blast
next
  fix fuel l' i' t' \<tau>'
  assume "evolve_while fuel c (l, i, t, \<tau>) = Inr (l', i', t', \<tau>')"
  from evolve_while_unknown [OF assms this]
  show "loop_state l' = loop_state l" "\<tau>' = \<tau>" "t' = t + of_int (i' - i) * \<tau>"
    by simp_all
qed

lemma demo_loop_rows: "3 \<le> length (loop_state demo_loop)" "rows_inv demo_loop 1"
  by (simp_all add: demo_loop_def demo_state_def rows_inv_def equal_lengths_def)

lemma unknown_ctx_solver:
  "solver (params unknown_ctx) \<noteq> ''euler''" "solver (params unknown_ctx) \<noteq> ''rk4''"
  "solver (params unknown_ctx) \<noteq> ''rka4''"
  by (simp_all add: unknown_ctx_def)

lemma unknown_ctx_run:
  "\<exists>l'. evolve_while 1 unknown_ctx (demo_loop, 1, 1, 1) = Inr (l', 2, 2, 1)"
proof -
  have d: "solver_dispatch unknown_ctx demo_loop 1 1 = Inr (demo_loop, 1)"
    using unknown_ctx_solver by (rule solver_dispatch_unknown)
  from evolve_body_after_dispatch [OF d demo_loop_rows]
  obtain l1 where b: "evolve_body unknown_ctx (demo_loop, 1, 1, 1) = Inr (l1, 1 + 1, 1 + 1, 1)"
    by blast
  have t: "total_time (params unknown_ctx) = 2"
    by (simp add: unknown_ctx_def demo_parameters_def)
  have "evolve_while (Suc 0) unknown_ctx (demo_loop, 1, 1, 1) = Inr (l1, 2, 2, 1)"
    by (simp add: b t)
  then show ?thesis by auto
qed

theorem EvolveLoop_unknown_solver_witness:
  "solver (params unknown_ctx) \<noteq> ''euler'' \<and> solver (params unknown_ctx) \<noteq> ''rk4''
   \<and> solver (params unknown_ctx) \<noteq> ''rka4''
   \<and> 3 \<le> length (loop_state demo_loop) \<and> rows_inv demo_loop 1
   \<and> (\<exists>l'. evolve_body unknown_ctx (demo_loop, 1, 1, 1) = Inr (l', 1 + 1, 1 + 1, 1)
          \<and> loop_state l' = loop_state demo_loop
          \<and> row_at (results l') (nat 1) = saved_row unknown_ctx (loop_state demo_loop) 1)
   \<and> (\<exists>l'. evolve_while 1 unknown_ctx (demo_loop, 1, 1, 1) = Inr (l', 2, 2, 1)
          \<and> loop_state l' = loop_state demo_loop
          \<and> (2::real) = 1 + of_int (2 - 1) * 1)"
proof -
  note th = EvolveLoop_unknown_solver [OF unknown_ctx_solver demo_loop_rows, of 1 1]
  obtain l' where r: "evolve_while 1 unknown_ctx (demo_loop, 1, 1, 1) = Inr (l', 2, 2, 1)"
    using unknown_ctx_run by blast
  with th have "loop_state l' = loop_state demo_loop \<and> (2::real) = 1 + of_int (2 - 1) * 1"
    by blast
  with r have "\<exists>l'. evolve_while 1 unknown_ctx (demo_loop, 1, 1, 1) = Inr (l', 2, 2, 1)
          \<and> loop_state l' = loop_state demo_loop
          \<and> (2::real) = 1 + of_int (2 - 1) * 1"
    by blast
  with th unknown_ctx_solver demo_loop_rows show ?thesis by blast
qed

subsection \<open>Progress of the adaptive solver\<close>

lemma RKA4Solver_wide_last:
  assumes "3 \<le> length s" and "2 \<le> rka_error (params c)" and "0 < \<tau>"
  shows "\<exists>v. RKA4Solver c s t \<tau> = Inr (v, []) \<and> 0 < last v \<and> last v \<le> 4 * \<tau>"
proof -
  obtain small r where a: "rka4_attempt c s t \<tau> = Inr (small, r)" "length small = length s"
    using assms(1) by (rule rka4_attempt_Inr)
  then have "attempt_at c s t \<tau> small r" using assms(1) by (simp add: rka4_attempt_iff)
  then obtain big where "r = worst_error_ratio c small big"
    unfolding attempt_at_def by blast
  moreover have "0 < length small" using a(2) assms(1) by linarith
  ultimately have "r < 1" using worst_error_ratio_wide [OF assms(2)] by simp
  have "rka4_loop c s t (Suc k) \<tau> None
          = Inr (small @ [fmin_tau (estimate_tau \<tau> r) (4 * \<tau>)], [])" for k
    using a(1) \<open>r < 1\<close> by (simp add: Let_def)
  from this [of 99] have "RKA4Solver c s t \<tau>
          = Inr (small @ [fmin_tau (estimate_tau \<tau> r) (4 * \<tau>)], [])"
    by (simp add: RKA4Solver_def)
  moreover have "0 < \<tau> / 1.1" using assms(3) by simp
  then have "0 < fmin_tau (estimate_tau \<tau> r) (4 * \<tau>)"
    using fmin_estimate_bounds(1) [OF assms(3), of r] by linarith
  ultimately show ?thesis using fmin_estimate_bounds(2) [OF assms(3), of r] by simp
qed

text \<open>A step size of at most \<open>2\<^sup>-\<^sup>5\<^sup>4\<close> added to the time 1 is rounded away.\<close>

lemma binary64_absorbs:
  assumes "0 < v" and "v \<le> 1 / 2 ^ 54"
  shows "binary64 (1 + v) = 1"
proof -
  have x: "1 \<le> 1 + v" "1 + v < 2"
  proof -
    show "1 \<le> 1 + v" using assms(1) by simp
    have "v \<le> 1 / 2 ^ 54" by (rule assms(2))
    also have "\<dots> < (1::real)" by simp
    finally show "1 + v < 2" by simp
  qed
  have "0 \<le> log 2 (1 + v)" using x(1) by simp
  moreover have "log 2 (1 + v) < 1" using x by simp
  ultimately have fl: "\<lfloor>log 2 \<bar>1 + v\<bar>\<rfloor> = 0" using x(1) by (simp add: floor_eq_iff)
  have u: "2 powr (of_int (max (0::int) (- 1022)) - 52) = (1 / 2 ^ 52 :: real)"
    by (simp add: powr_minus_divide)
  define w where "w = v * 2 ^ 52"
  have w: "0 < w" "w \<le> 1 / 4"
  proof -
    show "0 < w" unfolding w_def using assms(1) by simp
    have "v * 2 ^ 52 \<le> 1 / 2 ^ 54 * 2 ^ 52" using assms(2) by (intro mult_right_mono) simp_all
    then show "w \<le> 1 / 4" unfolding w_def by simp
  qed
  have q: "(1 + v) / (1 / 2 ^ 52) = of_int (2 ^ 52) + w"
    unfolding w_def by (simp add: algebra_simps)
  have f: "\<lfloor>of_int (2 ^ 52) + w\<rfloor> = 2 ^ 52"
    using w by (simp add: floor_eq_iff)
  have r: "round_half_even (of_int (2 ^ 52) + w) = 2 ^ 52"
    unfolding round_half_even_def Let_def f using w by simp
  have nz: "1 + v \<noteq> 0" using x(1) by simp
  show ?thesis
    unfolding binary64_def Let_def fl u q r using nz by simp
qed

text \<open>
  C10, as stated, fails in its last part. Called at the time 1 with the step size
  \<open>2\<^sup>-\<^sup>6\<^sup>0\<close>, \<open>RKA4Solver\<close> returns a positive step size, of at most \<open>2\<^sup>-\<^sup>5\<^sup>8\<close>; the update
  \<^verbatim>\<open>time += tau\<close> with it leaves the time at 1, so the time of this iteration does not
  increase.
\<close>

theorem EvolveLoop_time_absorbed_counterexample:
  "case RKA4Solver wide_ctx demo_state 1 (1 / 2 ^ 60) of
     Inl e \<Rightarrow> False
   | Inr (v, printed) \<Rightarrow> 0 < last v \<and> \<not> 1 < time_update 1 (last v)"
proof -
  have l: "3 \<le> length demo_state" by (simp add: demo_state_def)
  have e: "2 \<le> rka_error (params wide_ctx)"
    by (simp add: wide_ctx_def demo_ctx_def demo_parameters_def)
  have p: "(0::real) < 1 / 2 ^ 60" by simp
  from RKA4Solver_wide_last [OF l e p, of 1] obtain v where
    v: "RKA4Solver wide_ctx demo_state 1 (1 / 2 ^ 60) = Inr (v, [])" "0 < last v"
      "last v \<le> 4 * (1 / 2 ^ 60)"
    by blast
  have "last v \<le> 1 / 2 ^ 54" using v(3) by simp
  with v(2) have "binary64 (1 + last v) = 1" by (rule binary64_absorbs)
  with v(1,2) show ?thesis by (simp add: time_update_def)
qed



subsection \<open>Initial conditions\<close>

lemma ic_loop_body:
  "ic_loop c h i T_old n_old =
     (if i < 100
      then
       (if 0 < i \<and> \<not> CalculateC1_finite c T_old T_old n_old then Inl NonFinite
        else if \<not> balance_finite c h (if 0 < i then CalculateC1 c T_old T_old n_old else 2)
        then Inl NonFinite
        else (case balance_pair c h
                     (if 0 < i then CalculateC1 c T_old T_old n_old else 2) of
                (T, n) \<Rightarrow>
                  if \<bar>n - n_old\<bar> / n < 1 / 100 \<and> \<bar>T - T_old\<bar> / T < 1 / 100
                  then Inr (T, n, i)
                  else ic_loop c h (i + 1) T n))
      else Inr (T_old, n_old, i))"
proof -
  define c1 where "c1 = (if 0 < i then CalculateC1 c T_old T_old n_old else 2)"
  define x where "x = 3.5 * c1 / (1 + c1) * (loop_length (params c))\<^sup>2 * h
                    / (SPITZER_ELECTRON_CONDUCTIVITY (phys c)
                         + SPITZER_ION_CONDUCTIVITY (phys c))"
  define T where "T = CalculateC2 * x powr (2 / 7)"
  define y where "y = h / (GetPowerLawRad c (log 10 T) * (1 + c1))"
  define n where "n = sqrt y"
  have e: "ic_loop c h i T_old n_old =
     (if i < 100
      then
       (if 0 < i \<and> \<not> CalculateC1_finite c T_old T_old n_old
        then Inl NonFinite
        else
          if 1 + c1 = 0
                \<or> SPITZER_ELECTRON_CONDUCTIVITY (phys c) + SPITZER_ION_CONDUCTIVITY (phys c) = 0
                \<or> x \<le> 0
             then Inl NonFinite
             else
               if GetPowerLawRad c (log 10 T) * (1 + c1) = 0 \<or> y \<le> 0 then Inl NonFinite
                  else
                    if max (\<bar>n - n_old\<bar> / n) (\<bar>T - T_old\<bar> / T) < 1 / 100 then Inr (T, n, i)
                       else ic_loop c h (i + 1) T n)
      else Inr (T_old, n_old, i))"
    unfolding c1_def x_def T_def y_def n_def
    by (subst ic_loop.simps) (simp only: Let_def)
  have b: "balance_pair c h c1 = (T, n)"
    by (simp only: balance_pair_def Let_def T_def x_def n_def y_def)
  have f: "balance_finite c h c1 \<longleftrightarrow>
             \<not> (1 + c1 = 0
                \<or> SPITZER_ELECTRON_CONDUCTIVITY (phys c) + SPITZER_ION_CONDUCTIVITY (phys c) = 0
                \<or> x \<le> 0)
             \<and> \<not> (GetPowerLawRad c (log 10 T) * (1 + c1) = 0 \<or> y \<le> 0)"
    unfolding balance_finite_def b fst_conv
    by (simp only: x_def [symmetric] y_def [symmetric] de_Morgan_disj not_le not_not conj_assoc)
  show ?thesis
    unfolding e c1_def [symmetric] b f case_prod_conv max_less_iff_conj
    by (simp only: if_not_P if_P split: if_splits) auto
qed


lemma ic_iterate_previous:
  assumes "(T_old, n_old) = ic_previous c h i"
  shows "ic_iterate c h i
           = balance_pair c h (if 0 < i then CalculateC1 c T_old T_old n_old else 2)"
proof (cases i)
  case 0
  then show ?thesis by simp
next
  case (Suc k)
  with assms have "ic_iterate c h k = (T_old, n_old)" by simp
  with Suc show ?thesis by simp
qed

lemma ic_finite_previous:
  assumes "(T_old, n_old) = ic_previous c h i"
  shows "ic_finite c h i \<longleftrightarrow>
           \<not> (0 < i \<and> \<not> CalculateC1_finite c T_old T_old n_old)
           \<and> balance_finite c h (if 0 < i then CalculateC1 c T_old T_old n_old else 2)"
  unfolding ic_finite_def assms [symmetric] by auto

lemma ic_loop_step:
  assumes "i < 100" and "(T_old, n_old) = ic_previous c h i"
  shows "ic_loop c h i T_old n_old =
           (if \<not> ic_finite c h i then Inl NonFinite
            else if ic_converged c h i
            then Inr (fst (ic_iterate c h i), snd (ic_iterate c h i), i)
            else ic_loop c h (i + 1) (fst (ic_iterate c h i)) (snd (ic_iterate c h i)))"
proof -
  obtain T n where tn: "ic_iterate c h i = (T, n)" by (cases "ic_iterate c h i") blast
  then have b: "balance_pair c h (if 0 < i then CalculateC1 c T_old T_old n_old else 2) = (T, n)"
    using ic_iterate_previous [OF assms(2)] by simp
  have cv: "ic_converged c h i \<longleftrightarrow> \<bar>n - n_old\<bar> / n < 1 / 100 \<and> \<bar>T - T_old\<bar> / T < 1 / 100"
    using tn assms(2) [symmetric] by (auto simp: ic_converged_def)
  show ?thesis
    unfolding ic_loop_body [of c h i T_old n_old] ic_finite_previous [OF assms(2)] b cv tn
    using assms(1) by auto
qed

lemma ic_loop_first_leaving:
  assumes "i + m = 100" and "(T_old, n_old) = ic_previous c h i"
  shows "ic_loop c h i T_old n_old =
           (case first_leaving c h i m of
              Some k \<Rightarrow>
                if ic_finite c h k
                then Inr (fst (ic_iterate c h k), snd (ic_iterate c h k), k)
                else Inl NonFinite
            | None \<Rightarrow> Inr (fst (ic_iterate c h 99), snd (ic_iterate c h 99), 100))"
  using assms
proof (induction m arbitrary: i T_old n_old)
  case 0
  then have i: "i = 100" by simp
  have "ic_previous c h 100 = ic_iterate c h 99"
    using ic_previous.simps(2) [of c h 99] by simp
  with "0.prems"(2) i have "(T_old, n_old) = ic_iterate c h 99" by simp
  then have "T_old = fst (ic_iterate c h 99)" "n_old = snd (ic_iterate c h 99)"
    by (metis fst_conv, metis snd_conv)
  moreover have "ic_loop c h 100 T_old n_old = Inr (T_old, n_old, 100)"
    by (subst ic_loop_body) simp
  ultimately show ?case unfolding i by simp
next
  case (Suc m)
  then have i: "i < 100" by simp
  show ?case
  proof (cases "ic_leaves c h i")
    case True
    then show ?thesis
      unfolding ic_loop_step [OF i Suc.prems(2)] by (auto simp: ic_leaves_def)
  next
    case False
    have n: "i + 1 + m = 100" using Suc.prems(1) by simp
    have p: "(fst (ic_iterate c h i), snd (ic_iterate c h i)) = ic_previous c h (i + 1)"
      by simp
    from False have "ic_finite c h i" "\<not> ic_converged c h i" by (simp_all add: ic_leaves_def)
    then show ?thesis
      unfolding ic_loop_step [OF i Suc.prems(2)] using False Suc.IH [OF n p] by simp
  qed
qed

lemma first_leaving_Some:
  assumes "first_leaving c h i m = Some k"
  shows "i \<le> k \<and> k < i + m \<and> ic_leaves c h k
           \<and> (\<forall>j. i \<le> j \<and> j < k \<longrightarrow> \<not> ic_leaves c h j)"
  using assms
proof (induction m arbitrary: i)
  case 0
  then show ?case by simp
next
  case (Suc m)
  show ?case
  proof (cases "ic_leaves c h i")
    case True
    with Suc.prems show ?thesis by auto
  next
    case False
    with Suc.prems have "first_leaving c h (Suc i) m = Some k" by simp
    from Suc.IH [OF this] have ih: "Suc i \<le> k" "k < Suc i + m" "ic_leaves c h k"
      "\<And>j. Suc i \<le> j \<Longrightarrow> j < k \<Longrightarrow> \<not> ic_leaves c h j"
      by blast+
    have "\<not> ic_leaves c h j" if "i \<le> j \<and> j < k" for j
    proof (cases "j = i")
      case True
      with False show ?thesis by simp
    next
      case False
      with that have "Suc i \<le> j" by simp
      with that show ?thesis using ih(4) by blast
    qed
    with ih(1-3) show ?thesis by auto
  qed
qed

lemma first_leaving_None:
  assumes "first_leaving c h i m = None"
  shows "\<forall>j. i \<le> j \<and> j < i + m \<longrightarrow> \<not> ic_leaves c h j"
  using assms
proof (induction m arbitrary: i)
  case 0
  then show ?case by auto
next
  case (Suc m)
  from Suc.prems have n: "\<not> ic_leaves c h i" and r: "first_leaving c h (Suc i) m = None"
    by (simp_all split: if_splits)
  have "\<not> ic_leaves c h j" if "i \<le> j \<and> j < i + Suc m" for j
  proof (cases "j = i")
    case True
    with n show ?thesis by simp
  next
    case False
    with that have "Suc i \<le> j \<and> j < Suc i + m" by simp
    with Suc.IH [OF r] show ?thesis by blast
  qed
  then show ?case by blast
qed

lemma ic_loop_result:
  fixes c :: loop_ctx
  defines "h \<equiv> Get_Heating c 0"
  defines "r \<equiv> ic_loop c h 0 (LARGEST_DOUBLE (phys c)) (LARGEST_DOUBLE (phys c))"
  shows "(\<exists>k<100. (\<forall>j<k. ic_finite c h j \<and> \<not> ic_converged c h j) \<and> \<not> ic_finite c h k
            \<and> r = Inl NonFinite)
         \<or> (\<exists>T n i. r = Inr (T, n, i)
               \<and> i \<le> 100 \<and> (T, n) = ic_iterate c h (min i 99)
               \<and> (\<forall>j<i. ic_finite c h j \<and> \<not> ic_converged c h j)
               \<and> (i < 100 \<longrightarrow> ic_finite c h i \<and> ic_converged c h i))"
proof -
  have p: "(LARGEST_DOUBLE (phys c), LARGEST_DOUBLE (phys c)) = ic_previous c h 0" by simp
  have z: "(0::nat) + 100 = 100" by simp
  note e = ic_loop_first_leaving [OF z p, folded r_def]
  show ?thesis
  proof (cases "first_leaving c h 0 100")
    case None
    from first_leaving_None [OF None]
    have "\<forall>j<100. ic_finite c h j \<and> \<not> ic_converged c h j" by (simp add: ic_leaves_def)
    with e None show ?thesis by simp
  next
    case (Some k)
    from first_leaving_Some [OF Some]
    have k: "k < 100" "ic_leaves c h k" "\<forall>j<k. ic_finite c h j \<and> \<not> ic_converged c h j"
      by (simp_all add: ic_leaves_def)
    then have m: "min k 99 = k" by simp
    show ?thesis
    proof (cases "ic_finite c h k")
      case True
      with k(2) have "ic_converged c h k" by (simp add: ic_leaves_def)
      with e Some True k(1,3) m show ?thesis by simp
    next
      case False
      with e Some k(1,3) show ?thesis by auto
    qed
  qed
qed


lemma ic_loop_Inl:
  assumes "ic_loop c (Get_Heating c 0) 0 (LARGEST_DOUBLE (phys c)) (LARGEST_DOUBLE (phys c)) = Inl e"
  shows "e = NonFinite"
  using ic_loop_result [of c] assms by auto




text \<open>
  The passes of \<open>cold_ctx\<close>, whose heating rate at time zero is 1/100, all stay finite:
  every iterate has a positive temperature of at most \<open>8.1 \<sqdot> 10\<^sup>6\<close> and a density of at
  least \<open>2 \<sqdot> 10\<^sup>9\<close>.
\<close>

lemma c1_piecewise_bounds:
  assumes "0 < r"
  shows "0 < c1_piecewise 6 0.6 r \<and> c1_piecewise 6 0.6 r \<le> 6"
proof (cases "r < 1")
  case True
  define i where "i = 1 / r"
  have i: "1 < i" unfolding i_def using assms True by simp
  have e: "c1_piecewise 6 0.6 r = (2 * 2 + 6 * (i - 1)) / (1 + i)"
    using True by (simp add: c1_piecewise_def c1_under_dense_def i_def)
  have "0 < (2 * 2 + 6 * (i - 1)) / (1 + i)" using i by (intro divide_pos_pos) simp_all
  moreover have "(2 * 2 + 6 * (i - 1)) / (1 + i) \<le> 6"
    using i by (subst pos_divide_le_eq) simp_all
  ultimately show ?thesis unfolding e by simp
next
  case False
  have e: "c1_piecewise 6 0.6 r = (2 * 2 + 0.6 * (r - 1)) / (1 + r)"
    using False by (simp add: c1_piecewise_def c1_over_dense_def)
  from False have r: "1 \<le> r" by simp
  have "0 \<le> 0.6 * (r - 1)" using r by simp
  then have "0 < 2 * 2 + 0.6 * (r - 1)" by linarith
  moreover have "0 < 1 + r" using r by linarith
  ultimately have "0 < 2 * 2 + 0.6 * (r - 1)" "0 < 1 + r" by blast+
  then have "0 < (2 * 2 + 0.6 * (r - 1)) / (1 + r)" by (rule divide_pos_pos)
  moreover have "2 * 2 + 0.6 * (r - 1) \<le> 6 * (1 + r)" using r by (simp add: algebra_simps)
  then have "(2 * 2 + 0.6 * (r - 1)) / (1 + r) \<le> 6"
    using \<open>0 < 1 + r\<close> by (simp only: pos_divide_le_eq)
  ultimately show ?thesis unfolding e by simp
qed

lemma cold_ctx_fields:
  "phys cold_ctx = demo_constants"
  "GetPowerLawRad cold_ctx = (\<lambda>x. 19 / 10 ^ 23)"
  "Get_Heating cold_ctx = (\<lambda>t. if t \<le> 0 then 1 / 100 else 0)"
  "heater_partition cold_ctx = 1 / 2"
  "loop_length (params cold_ctx) = 4 * 10 ^ 9"
  "c1_cond0 (params cold_ctx) = 6" "c1_rad0 (params cold_ctx) = 0.6"
  "\<not> use_c1_loss_correction (params cold_ctx)" "\<not> use_c1_grav_correction (params cold_ctx)"
  "\<not> calculate_dem (params cold_ctx)"
  "solver (params cold_ctx) = ''euler''" "tau (params cold_ctx) = 10 ^ 4"
  "total_time (params cold_ctx) = 2 * 10 ^ 4"
  "boltzmann_correction (params cold_ctx) = 1" "ion_mass_correction (params cold_ctx) = 1"
  by (simp_all add: cold_ctx_def pulse_ctx_def demo_ctx_def demo_parameters_def)











subsection \<open>The results buffer\<close>





lemma solver_dispatch_frame:
  assumes "solver_dispatch c l t \<tau> = Inr (l1, \<tau>1)"
  shows "results l1 = results l \<and> N l1 = N l"
  using assms
  by (auto simp: solver_dispatch_def and_then_def split: if_splits sum.splits prod.splits)

lemma dem_step_frame:
  assumes "dem_step c l i = Inr l2"
  shows "results l2 = results l \<and> N l2 = N l \<and> loop_state l2 = loop_state l"
  using assms by (auto simp: dem_step_def Let_def split: if_splits)

lemma SaveResults_Inr_length:
  assumes "SaveResults c l i t = Inr l'"
  shows "3 \<le> length (loop_state l)"
  using assms by (simp add: SaveResults_def split: if_splits)

lemma evolve_body_rows:
  assumes "evolve_body c (l, i, t, \<tau>) = Inr (l', i', t', \<tau>')" and "rows_inv l i"
  shows "rows_inv l' i' \<and> i' = i + 1"
proof -
  from assms(1) obtain l1 \<tau>1 l2 where
    d: "solver_dispatch c l t \<tau> = Inr (l1, \<tau>1)" and m: "dem_step c l1 i = Inr l2"
    and s: "SaveResults c l2 i t = Inr l'" and i': "i' = i + 1"
    by (auto simp: evolve_body_def and_then_def split: sum.splits prod.splits)
  have "rows_inv l2 i"
    using assms(2) solver_dispatch_frame [OF d] dem_step_frame [OF m]
    by (simp add: rows_inv_def)
  from SaveResults_rows [OF SaveResults_Inr_length [OF s] this, of c t] s i'
  show ?thesis by simp
qed

lemma evolve_while_rows:
  assumes "evolve_while fuel c (l, i, t, \<tau>) = Inr (l', i', t', \<tau>')" and "rows_inv l i"
  shows "rows_inv l' i' \<and> i \<le> i'"
  using assms
proof (induction fuel arbitrary: l i t \<tau>)
  case 0
  then show ?case by (simp split: if_splits)
next
  case (Suc k)
  show ?case
  proof (cases "t < total_time (params c)")
    case False
    with Suc.prems show ?thesis by simp
  next
    case True
    with Suc.prems(1) obtain l1 i1 t1 \<tau>1 where
      b: "evolve_body c (l, i, t, \<tau>) = Inr (l1, i1, t1, \<tau>1)"
      and w: "evolve_while k c (l1, i1, t1, \<tau>1) = Inr (l', i', t', \<tau>')"
      by (auto split: sum.splits)
    from evolve_body_rows [OF b Suc.prems(2)]
    have r1: "rows_inv l1 i1" and i1: "i1 = i + 1" by blast+
    from Suc.IH [OF w r1] i1 show ?thesis by simp
  qed
qed















subsection \<open>The derivative function\<close>


lemma CalculateDerivs_formula:
  "CalculateDerivs c [Pe, Pi, n] t =
     Inr [GAMMA_MINUS_ONE (phys c) / loop_length (params c)
            * (psi_tr_flux c Pe Pi n + psi_c_coupling c Pe Pi n
                 - radiative_R_c c Pe n * (1 + state_C1 c Pe Pi n))
          + GAMMA_MINUS_ONE (phys c) * Get_Heating c t * heater_partition c,
          - GAMMA_MINUS_ONE (phys c) / loop_length (params c)
            * (psi_tr_flux c Pe Pi n + psi_c_coupling c Pe Pi n)
          + GAMMA_MINUS_ONE (phys c) * Get_Heating c t * (1 - heater_partition c),
          CalculateC2 * GAMMA_MINUS_ONE (phys c)
            / (CalculateC3 * loop_length (params c) * GAMMA (phys c)
                 * BOLTZMANN_CONSTANT (phys c) * electron_temperature c Pe n)
            * (- flux_e c Pe n - state_C1 c Pe Pi n * radiative_R_c c Pe n
                 + psi_tr_flux c Pe Pi n)]"
proof -
  have j: "boltzmann_correction (params c) * BOLTZMANN_CONSTANT (phys c) * n
             = BOLTZMANN_CONSTANT (phys c) * boltzmann_correction (params c) * n"
    by simp
  show ?thesis
    unfolding CalculateDerivs_def Let_def electron_temperature_def ion_temperature_def
      flux_e_def flux_i_def state_C1_def radiative_R_c_def psi_tr_flux_def
      psi_c_coupling_def j
    by simp
qed


lemma CalculateDerivs_same_answers:
  assumes "same_answers c c' (electron_temperature c Pe n) t"
  shows "CalculateDerivs c' [Pe, Pi, n] t = CalculateDerivs c [Pe, Pi, n] t"
proof -
  from assms have e: "phys c' = phys c" "params c' = params c"
    "heater_partition c' = heater_partition c"
    "GetPowerLawRad c' (log 10 (Pe / (BOLTZMANN_CONSTANT (phys c) * n)))
       = GetPowerLawRad c (log 10 (Pe / (BOLTZMANN_CONSTANT (phys c) * n)))"
    "Get_Heating c' t = Get_Heating c t"
    by (simp_all add: same_answers_def electron_temperature_def)
  have tc: "CalculateThermalConduction c' T m sp = CalculateThermalConduction c T m sp"
    for T m sp
    by (simp add: CalculateThermalConduction_def Let_def e)
  have cf: "CalculateCollisionFrequency c' T m = CalculateCollisionFrequency c T m" for T m
    by (simp add: CalculateCollisionFrequency_def Let_def e)
  have sh: "CalculateScaleHeight c' T T' = CalculateScaleHeight c T T'" for T T'
    by (simp add: CalculateScaleHeight_def e)
  have c1: "CalculateC1 c' (Pe / (BOLTZMANN_CONSTANT (phys c) * n)) T' m
              = CalculateC1 c (Pe / (BOLTZMANN_CONSTANT (phys c) * n)) T' m" for T' m
    by (simp add: CalculateC1_def Let_def e sh)
  show ?thesis
    by (simp add: CalculateDerivs_def Let_def e tc cf c1)
qed

text \<open>
  C3. For a state \<open>[Pe, Pi, n]\<close> with positive components and any time,
  \<open>CalculateDerivs\<close> returns the three rates built from \<open>Te = Pe / (kB n)\<close>,
  \<open>Ti = Pi / (boltzmann_correction kB n)\<close> and the transition-region flux
  \<open>\<psi>_tr = (f_e + C1 R_c - \<xi> f_i) / (1 + \<xi>)\<close> with \<open>\<xi> = Pe / Pi\<close>,
  \<open>R_c = n\<^sup>2 R(Te) loop_length\<close>, the two conductive fluxes and \<open>C1 = CalculateC1 Te Ti n\<close>.
  The result is a function of the state, the time, the configuration and the two
  answers of the collaborators: a context that agrees on these gives the same result.
  The function has no object to mutate: it reads the context and returns the rates.
\<close>

theorem CalculateDerivs_transition_flux:
  assumes "0 < Pe" and "0 < Pi" and "0 < n"
  shows "electron_temperature c Pe n = Pe / (BOLTZMANN_CONSTANT (phys c) * n)
         \<and> ion_temperature c Pi n
             = Pi / (boltzmann_correction (params c) * BOLTZMANN_CONSTANT (phys c) * n)
         \<and> psi_tr_flux c Pe Pi n
             = (CalculateThermalConduction c (electron_temperature c Pe n) n ''electron''
                + CalculateC1 c (electron_temperature c Pe n) (ion_temperature c Pi n) n
                    * (n\<^sup>2 * GetPowerLawRad c (log 10 (electron_temperature c Pe n))
                         * loop_length (params c))
                - Pe / Pi * CalculateThermalConduction c (ion_temperature c Pi n) n ''ion'')
               / (1 + Pe / Pi)
         \<and> CalculateDerivs c [Pe, Pi, n] t =
             Inr [GAMMA_MINUS_ONE (phys c) / loop_length (params c)
                    * (psi_tr_flux c Pe Pi n + psi_c_coupling c Pe Pi n
                         - radiative_R_c c Pe n * (1 + state_C1 c Pe Pi n))
                  + GAMMA_MINUS_ONE (phys c) * Get_Heating c t * heater_partition c,
                  - GAMMA_MINUS_ONE (phys c) / loop_length (params c)
                    * (psi_tr_flux c Pe Pi n + psi_c_coupling c Pe Pi n)
                  + GAMMA_MINUS_ONE (phys c) * Get_Heating c t * (1 - heater_partition c),
                  CalculateC2 * GAMMA_MINUS_ONE (phys c)
                    / (CalculateC3 * loop_length (params c) * GAMMA (phys c)
                         * BOLTZMANN_CONSTANT (phys c) * electron_temperature c Pe n)
                    * (- flux_e c Pe n - state_C1 c Pe Pi n * radiative_R_c c Pe n
                         + psi_tr_flux c Pe Pi n)]
         \<and> (same_answers c c' (electron_temperature c Pe n) t \<longrightarrow>
               CalculateDerivs c' [Pe, Pi, n] t = CalculateDerivs c [Pe, Pi, n] t)"
proof (intro conjI impI)
  show "psi_tr_flux c Pe Pi n
          = (CalculateThermalConduction c (electron_temperature c Pe n) n ''electron''
             + CalculateC1 c (electron_temperature c Pe n) (ion_temperature c Pi n) n
                 * (n\<^sup>2 * GetPowerLawRad c (log 10 (electron_temperature c Pe n))
                      * loop_length (params c))
             - Pe / Pi * CalculateThermalConduction c (ion_temperature c Pi n) n ''ion'')
            / (1 + Pe / Pi)"
    by (simp only: psi_tr_flux_def flux_e_def flux_i_def state_C1_def radiative_R_c_def)
  show "CalculateDerivs c' [Pe, Pi, n] t = CalculateDerivs c [Pe, Pi, n] t"
    if "same_answers c c' (electron_temperature c Pe n) t"
    using that by (rule CalculateDerivs_same_answers)
qed (simp_all only: electron_temperature_def ion_temperature_def CalculateDerivs_formula)

lemma same_answers_pulse: "same_answers demo_ctx pulse_ctx (electron_temperature demo_ctx 1 (10 ^ 9)) 0"
  by (simp add: same_answers_def pulse_ctx_def demo_ctx_def)

theorem CalculateDerivs_transition_flux_witness:
  "(0::real) < 1 \<and> (0::real) < 10 ^ 9
   \<and> same_answers demo_ctx pulse_ctx (electron_temperature demo_ctx 1 (10 ^ 9)) 0
   \<and> psi_tr_flux demo_ctx 1 1 (10 ^ 9)
       = (CalculateThermalConduction demo_ctx (electron_temperature demo_ctx 1 (10 ^ 9))
            (10 ^ 9) ''electron''
          + CalculateC1 demo_ctx (electron_temperature demo_ctx 1 (10 ^ 9))
              (ion_temperature demo_ctx 1 (10 ^ 9)) (10 ^ 9)
              * ((10 ^ 9)\<^sup>2
                   * GetPowerLawRad demo_ctx (log 10 (electron_temperature demo_ctx 1 (10 ^ 9)))
                   * loop_length (params demo_ctx))
          - 1 / 1 * CalculateThermalConduction demo_ctx (ion_temperature demo_ctx 1 (10 ^ 9))
                      (10 ^ 9) ''ion'')
         / (1 + 1 / 1)
   \<and> CalculateDerivs pulse_ctx [1, 1, 10 ^ 9] 0 = CalculateDerivs demo_ctx [1, 1, 10 ^ 9] 0"
proof -
  have p: "(0::real) < 1" "(0::real) < 10 ^ 9" by simp_all
  show ?thesis
    using CalculateDerivs_transition_flux [OF p(1) p(1) p(2), of demo_ctx 0 pulse_ctx]
      same_answers_pulse p
    by blast
qed

subsection \<open>Positivity of the state\<close>












lemma cold_ctx_heating_nonneg: "0 \<le> Get_Heating cold_ctx t"
  by (simp add: cold_ctx_fields)





subsection \<open>One step of the fourth-order solver on three components\<close>

text \<open>
  On a state of three components the four stages of \<open>RK4Solver\<close> can be written out.
  When every derivative evaluation near \<open>demo_state\<close> is a bounded term plus a multiple
  of a time profile \<open>\<chi>\<close>, the step stays near \<open>demo_state\<close> and its first component
  is Simpson's rule on \<open>\<chi>\<close> up to the bounded term.
\<close>

lemma for_loop_3_update:
  assumes "length v = 3"
  shows "for_loop 3 (\<lambda>i tmp. tmp[i := g i]) v = [g 0, g 1, g 2]"
proof -
  obtain x y z where v: "v = [x, y, z]"
    using assms by (auto simp: length_Suc_conv numeral_3_eq_3)
  have "for_loop (Suc (Suc (Suc 0))) (\<lambda>i tmp. tmp[i := g i]) [x, y, z] = [g 0, g 1, g 2]"
    by (simp add: for_loop_Suc numeral_2_eq_2)
  then show ?thesis unfolding v by (simp add: numeral_3_eq_3)
qed

lemma RK4Solver_explicit:
  assumes s: "length s = 3"
    and f1: "CalculateDerivs c s t = Inr f1"
    and f2: "CalculateDerivs c [s ! 0 + \<tau> / 2 * f1 ! 0, s ! 1 + \<tau> / 2 * f1 ! 1,
                                s ! 2 + \<tau> / 2 * f1 ! 2] (t + \<tau> / 2) = Inr f2"
    and f3: "CalculateDerivs c [s ! 0 + \<tau> / 2 * f2 ! 0, s ! 1 + \<tau> / 2 * f2 ! 1,
                                s ! 2 + \<tau> / 2 * f2 ! 2] (t + \<tau> / 2) = Inr f3"
    and f4: "CalculateDerivs c [s ! 0 + \<tau> * f3 ! 0, s ! 1 + \<tau> * f3 ! 1,
                                s ! 2 + \<tau> * f3 ! 2] (t + \<tau>) = Inr f4"
  shows "RK4Solver c s t \<tau> =
           Inr [s ! 0 + \<tau> / 6 * (f1 ! 0 + 2 * f2 ! 0 + 2 * f3 ! 0 + f4 ! 0),
                s ! 1 + \<tau> / 6 * (f1 ! 1 + 2 * f2 ! 1 + 2 * f3 ! 1 + f4 ! 1),
                s ! 2 + \<tau> / 6 * (f1 ! 2 + 2 * f2 ! 2 + 2 * f3 ! 2 + f4 ! 2)]"
proof -
  have l: "length f = 3" if "CalculateDerivs c x y = Inr f" for x y f
    using that by (auto simp: CalculateDerivs_def Let_def split: if_splits)
  note ls = l [OF f1] l [OF f2] l [OF f3] l [OF f4]
  have r: "length (replicate (length s) (0::real)) = 3" using s by simp
  have t1: "for_loop (length f1) (\<lambda>i tmp. tmp[i := s ! i + \<tau> / 2 * f1 ! i])
              (replicate (length s) 0)
            = [s ! 0 + \<tau> / 2 * f1 ! 0, s ! 1 + \<tau> / 2 * f1 ! 1, s ! 2 + \<tau> / 2 * f1 ! 2]"
    unfolding ls by (rule for_loop_3_update [OF r])
  have t2: "for_loop (length f2) (\<lambda>i tmp. tmp[i := s ! i + \<tau> / 2 * f2 ! i])
              [s ! 0 + \<tau> / 2 * f1 ! 0, s ! 1 + \<tau> / 2 * f1 ! 1, s ! 2 + \<tau> / 2 * f1 ! 2]
            = [s ! 0 + \<tau> / 2 * f2 ! 0, s ! 1 + \<tau> / 2 * f2 ! 1, s ! 2 + \<tau> / 2 * f2 ! 2]"
    unfolding ls by (rule for_loop_3_update) simp
  have t3: "for_loop (length f3) (\<lambda>i tmp. tmp[i := s ! i + \<tau> * f3 ! i])
              [s ! 0 + \<tau> / 2 * f2 ! 0, s ! 1 + \<tau> / 2 * f2 ! 1, s ! 2 + \<tau> / 2 * f2 ! 2]
            = [s ! 0 + \<tau> * f3 ! 0, s ! 1 + \<tau> * f3 ! 1, s ! 2 + \<tau> * f3 ! 2]"
    unfolding ls by (rule for_loop_3_update) simp
  have t4: "for_loop (length f4)
              (\<lambda>i new_state. new_state[i := s ! i
                   + \<tau> / 6 * (f1 ! i + 2 * f2 ! i + 2 * f3 ! i + f4 ! i)])
              (replicate (length s) 0)
            = [s ! 0 + \<tau> / 6 * (f1 ! 0 + 2 * f2 ! 0 + 2 * f3 ! 0 + f4 ! 0),
                s ! 1 + \<tau> / 6 * (f1 ! 1 + 2 * f2 ! 1 + 2 * f3 ! 1 + f4 ! 1),
                s ! 2 + \<tau> / 6 * (f1 ! 2 + 2 * f2 ! 2 + 2 * f3 ! 2 + f4 ! 2)]"
    unfolding ls by (rule for_loop_3_update [OF r])
  show ?thesis
    unfolding RK4Solver_def
    by (simp only: f1 and_then_Inr Let_def t1 f2 t2 f3 t3 f4 t4)
qed


lemma near_stage:
  assumes n: "near r s" and f: "\<bar>f0\<bar> \<le> K" "\<bar>f1\<bar> \<le> K" "\<bar>f2\<bar> \<le> K * 10 ^ 9" and c: "0 \<le> c"
  shows "near (r + c * K) [s ! 0 + c * f0, s ! 1 + c * f1, s ! 2 + c * f2]"
proof -
  have a: "\<bar>x + c * y - m\<bar> \<le> q + c * k" if "\<bar>x - m\<bar> \<le> q" "\<bar>y\<bar> \<le> k" for x y m q k :: real
  proof -
    have "\<bar>c * y\<bar> \<le> c * k" using that(2) c by (simp add: abs_mult mult_left_mono)
    with that(1) show ?thesis by linarith
  qed
  from n have n': "\<bar>s ! 0 - 1\<bar> \<le> r" "\<bar>s ! 1 - 1\<bar> \<le> r" "\<bar>s ! 2 - 10 ^ 9\<bar> \<le> r * 10 ^ 9"
    by (simp_all add: near_def)
  have "\<bar>s ! 2 + c * f2 - 10 ^ 9\<bar> \<le> r * 10 ^ 9 + c * (K * 10 ^ 9)"
    using n'(3) f(3) by (rule a)
  then have "\<bar>s ! 2 + c * f2 - 10 ^ 9\<bar> \<le> (r + c * K) * 10 ^ 9"
    by (simp add: algebra_simps)
  with a [OF n'(1) f(1)] a [OF n'(2) f(2)] show ?thesis
    by (simp add: near_def)
qed

lemma near_mono:
  assumes "near r s" and "r \<le> r'"
  shows "near r' s"
proof -
  have "r * 10 ^ 9 \<le> r' * (10 ^ 9 :: real)" using assms(2) by simp
  with assms show ?thesis unfolding near_def by linarith
qed

lemma rk4_average_bound:
  fixes a b c d k :: real
  assumes "\<bar>a\<bar> \<le> k" and "\<bar>b\<bar> \<le> k" and "\<bar>c\<bar> \<le> k" and "\<bar>d\<bar> \<le> k"
  shows "\<bar>(a + 2 * b + 2 * c + d) / 6\<bar> \<le> k"
proof -
  have "\<bar>a + 2 * b + 2 * c + d\<bar> \<le> 6 * k" using assms by linarith
  moreover have "\<bar>(a + 2 * b + 2 * c + d) / 6\<bar> = \<bar>a + 2 * b + 2 * c + d\<bar> / 6" by simp
  ultimately show ?thesis by simp
qed

lemma RK4Solver_near:
  assumes D: "\<And>s t. near (1 / 2) s \<Longrightarrow>
                \<exists>g0 g1 g2. CalculateDerivs c s t = Inr [g0 + a * \<chi> t, g1 + a * \<chi> t, g2]
                  \<and> \<bar>g0\<bar> \<le> M \<and> \<bar>g1\<bar> \<le> M \<and> \<bar>g2\<bar> \<le> M * 10 ^ 9"
    and \<chi>: "\<And>t. 0 \<le> \<chi> t \<and> \<chi> t \<le> 1" and a: "0 \<le> a" and M: "0 \<le> M"
    and n: "near r s" and \<tau>: "0 < \<tau>" and h: "r + \<tau> * (M + a) \<le> 1 / 2"
  shows "\<exists>s' e. RK4Solver c s t \<tau> = Inr s' \<and> near (r + \<tau> * (M + a)) s'
           \<and> s' ! 0 = s ! 0 + \<tau> * a * (\<chi> t + 4 * \<chi> (t + \<tau> / 2) + \<chi> (t + \<tau>)) / 6 + e
           \<and> \<bar>e\<bar> \<le> \<tau> * M"
proof -
  let ?K = "M + a"
  have K: "0 \<le> ?K" using a M by simp
  have Db: "\<exists>f g. CalculateDerivs c x y = Inr f \<and> f ! 0 = g + a * \<chi> y \<and> \<bar>g\<bar> \<le> M
              \<and> \<bar>f ! 0\<bar> \<le> ?K \<and> \<bar>f ! 1\<bar> \<le> ?K \<and> \<bar>f ! 2\<bar> \<le> ?K * 10 ^ 9"
    if "near (1 / 2) x" for x y
  proof -
    from D [OF that, of y] obtain g0 g1 g2 where
      d: "CalculateDerivs c x y = Inr [g0 + a * \<chi> y, g1 + a * \<chi> y, g2]"
      and g: "\<bar>g0\<bar> \<le> M" "\<bar>g1\<bar> \<le> M" "\<bar>g2\<bar> \<le> M * 10 ^ 9"
      by blast
    have ax: "\<bar>a * \<chi> y\<bar> \<le> a"
    proof -
      have "a * \<chi> y \<le> a * 1" using \<chi> [of y] a by (intro mult_left_mono) simp_all
      moreover have "0 \<le> a * \<chi> y" using \<chi> [of y] a by simp
      ultimately show ?thesis by simp
    qed
    have "\<bar>g0 + a * \<chi> y\<bar> \<le> ?K" "\<bar>g1 + a * \<chi> y\<bar> \<le> ?K" using g(1,2) ax by linarith+
    moreover have "M * 10 ^ 9 \<le> ?K * 10 ^ 9" using a by simp
    then have "\<bar>g2\<bar> \<le> ?K * 10 ^ 9" using g(3) by linarith
    ultimately show ?thesis using d g(1) by auto
  qed
  have half: "0 \<le> \<tau> / 2" "r + \<tau> / 2 * ?K \<le> 1 / 2" "r + \<tau> * ?K \<le> 1 / 2"
  proof -
    have p: "0 \<le> \<tau> * ?K" using \<tau> K by simp
    have e: "\<tau> / 2 * ?K = \<tau> * ?K / 2" by simp
    show "0 \<le> \<tau> / 2" using \<tau> by simp
    show "r + \<tau> / 2 * ?K \<le> 1 / 2" unfolding e using p h by linarith
    show "r + \<tau> * ?K \<le> 1 / 2" by (rule h)
  qed
  have l: "length s = 3" using n by (simp add: near_def)
  have n0: "near (1 / 2) s"
  proof -
    have "0 \<le> \<tau> * ?K" using \<tau> K by simp
    with h have "r \<le> 1 / 2" by linarith
    with n show ?thesis by (rule near_mono)
  qed
  from Db [OF n0, of t] obtain f1 g1 where
    f1: "CalculateDerivs c s t = Inr f1" "f1 ! 0 = g1 + a * \<chi> t" "\<bar>g1\<bar> \<le> M"
      "\<bar>f1 ! 0\<bar> \<le> ?K" "\<bar>f1 ! 1\<bar> \<le> ?K" "\<bar>f1 ! 2\<bar> \<le> ?K * 10 ^ 9"
    by blast
  let ?t1 = "[s ! 0 + \<tau> / 2 * f1 ! 0, s ! 1 + \<tau> / 2 * f1 ! 1, s ! 2 + \<tau> / 2 * f1 ! 2]"
  have "near (r + \<tau> / 2 * ?K) ?t1" using n f1(4-6) half(1) by (rule near_stage)
  then have n1: "near (1 / 2) ?t1" using half(2) by (rule near_mono)
  from Db [OF n1, of "t + \<tau> / 2"] obtain f2 g2 where
    f2: "CalculateDerivs c ?t1 (t + \<tau> / 2) = Inr f2" "f2 ! 0 = g2 + a * \<chi> (t + \<tau> / 2)"
      "\<bar>g2\<bar> \<le> M" "\<bar>f2 ! 0\<bar> \<le> ?K" "\<bar>f2 ! 1\<bar> \<le> ?K" "\<bar>f2 ! 2\<bar> \<le> ?K * 10 ^ 9"
    by blast
  let ?t2 = "[s ! 0 + \<tau> / 2 * f2 ! 0, s ! 1 + \<tau> / 2 * f2 ! 1, s ! 2 + \<tau> / 2 * f2 ! 2]"
  have "near (r + \<tau> / 2 * ?K) ?t2" using n f2(4-6) half(1) by (rule near_stage)
  then have n2: "near (1 / 2) ?t2" using half(2) by (rule near_mono)
  from Db [OF n2, of "t + \<tau> / 2"] obtain f3 g3 where
    f3: "CalculateDerivs c ?t2 (t + \<tau> / 2) = Inr f3" "f3 ! 0 = g3 + a * \<chi> (t + \<tau> / 2)"
      "\<bar>g3\<bar> \<le> M" "\<bar>f3 ! 0\<bar> \<le> ?K" "\<bar>f3 ! 1\<bar> \<le> ?K" "\<bar>f3 ! 2\<bar> \<le> ?K * 10 ^ 9"
    by blast
  let ?t3 = "[s ! 0 + \<tau> * f3 ! 0, s ! 1 + \<tau> * f3 ! 1, s ! 2 + \<tau> * f3 ! 2]"
  have \<tau>0: "0 \<le> \<tau>" using \<tau> by simp
  have "near (r + \<tau> * ?K) ?t3" using n f3(4-6) \<tau>0 by (rule near_stage)
  then have n3: "near (1 / 2) ?t3" using half(3) by (rule near_mono)
  from Db [OF n3, of "t + \<tau>"] obtain f4 g4 where
    f4: "CalculateDerivs c ?t3 (t + \<tau>) = Inr f4" "f4 ! 0 = g4 + a * \<chi> (t + \<tau>)"
      "\<bar>g4\<bar> \<le> M" "\<bar>f4 ! 0\<bar> \<le> ?K" "\<bar>f4 ! 1\<bar> \<le> ?K" "\<bar>f4 ! 2\<bar> \<le> ?K * 10 ^ 9"
    by blast
  let ?w0 = "(f1 ! 0 + 2 * f2 ! 0 + 2 * f3 ! 0 + f4 ! 0) / 6"
  let ?w1 = "(f1 ! 1 + 2 * f2 ! 1 + 2 * f3 ! 1 + f4 ! 1) / 6"
  let ?w2 = "(f1 ! 2 + 2 * f2 ! 2 + 2 * f3 ! 2 + f4 ! 2) / 6"
  let ?s' = "[s ! 0 + \<tau> * ?w0, s ! 1 + \<tau> * ?w1, s ! 2 + \<tau> * ?w2]"
  have r: "RK4Solver c s t \<tau> = Inr ?s'"
    unfolding RK4Solver_explicit [OF l f1(1) f2(1) f3(1) f4(1)] by simp
  have w: "\<bar>?w0\<bar> \<le> ?K" "\<bar>?w1\<bar> \<le> ?K" "\<bar>?w2\<bar> \<le> ?K * 10 ^ 9"
    using f1(4) f2(4) f3(4) f4(4) apply (rule rk4_average_bound)
    using f1(5) f2(5) f3(5) f4(5) apply (rule rk4_average_bound)
    using f1(6) f2(6) f3(6) f4(6) apply (rule rk4_average_bound)
    done
  have ns: "near (r + \<tau> * ?K) ?s'" using n w \<tau>0 by (rule near_stage)
  define e where "e = \<tau> * ((g1 + 2 * g2 + 2 * g3 + g4) / 6)"
  have "\<bar>(g1 + 2 * g2 + 2 * g3 + g4) / 6\<bar> \<le> M"
    using f1(3) f2(3) f3(3) f4(3) by (rule rk4_average_bound)
  then have "\<tau> * \<bar>(g1 + 2 * g2 + 2 * g3 + g4) / 6\<bar> \<le> \<tau> * M"
    using \<tau>0 by (rule mult_left_mono)
  moreover have "\<bar>e\<bar> = \<tau> * \<bar>(g1 + 2 * g2 + 2 * g3 + g4) / 6\<bar>"
    unfolding e_def using \<tau>0 by (simp only: abs_mult abs_of_nonneg)
  ultimately have "\<bar>e\<bar> \<le> \<tau> * M" by simp
  moreover have "?s' ! 0 = s ! 0 + \<tau> * a * (\<chi> t + 4 * \<chi> (t + \<tau> / 2) + \<chi> (t + \<tau>)) / 6 + e"
    unfolding e_def f1(2) f2(2) f3(2) f4(2) nth_Cons_0 by (simp add: field_simps)
  ultimately show ?thesis using r ns by blast
qed

subsection \<open>Derivatives of the stiff configuration\<close>

text \<open>
  Near \<open>demo_state\<close> the derivatives of \<open>stiff_ctx\<close> are the heating term plus terms
  bounded by \<open>2 \<sqdot> 10\<^sup>1\<^sup>2\<close>: there is no conductive flux, the radiative loss is small,
  and the collision frequency is bounded through its Coulomb logarithm.
\<close>

lemma stiff_ctx_fields:
  "phys stiff_ctx = demo_constants"
  "GetPowerLawRad stiff_ctx = (\<lambda>x. 19 / 10 ^ 23)"
  "Get_Heating stiff_ctx = (\<lambda>t. 10 ^ 15 * unit_step t)"
  "heater_partition stiff_ctx = 1 / 2"
  "loop_length (params stiff_ctx) = 4 * 10 ^ 9"
  "c1_cond0 (params stiff_ctx) = 6" "c1_rad0 (params stiff_ctx) = 0.6"
  "\<not> use_c1_loss_correction (params stiff_ctx)" "\<not> use_c1_grav_correction (params stiff_ctx)"
  "\<not> use_spitzer_conductivity (params stiff_ctx)"
  "saturation_limit (params stiff_ctx) = 0" "rka_error (params stiff_ctx) = 0"
  "boltzmann_correction (params stiff_ctx) = 1" "ion_mass_correction (params stiff_ctx) = 1"
  by (simp_all add: stiff_ctx_def demo_ctx_def demo_parameters_def)

lemma stiff_no_flux: "CalculateThermalConduction stiff_ctx T n species = 0"
  by (simp add: CalculateThermalConduction_def Let_def stiff_ctx_fields)

lemma stiff_C1_bounds:
  assumes "0 < T" and "0 < n"
  shows "0 < CalculateC1 stiff_ctx T T' n \<and> CalculateC1 stiff_ctx T T' n \<le> 6"
proof -
  have l: "c1_loss_correction stiff_ctx T = 1" "c1_grav_correction stiff_ctx T T' = 1"
    by (simp_all add: c1_loss_correction_def c1_grav_correction_def stiff_ctx_fields)
  have "0 < (T / CalculateC2) powr 3.5" using assms(1) by (simp add: CalculateC2_def)
  then have d: "0 < c1_density_eqm_2 stiff_ctx T T'"
    unfolding c1_density_eqm_2_def l
    by (simp add: stiff_ctx_fields demo_constants_def)
  have "0 < n\<^sup>2 / c1_density_eqm_2 stiff_ctx T T'" using d assms(2) by simp
  from c1_piecewise_bounds [OF this] show ?thesis
    by (simp add: CalculateC1_formula l stiff_ctx_fields)
qed

lemma abs_ln_le:
  fixes w :: real
  assumes "0 < w"
  shows "\<bar>ln w\<bar> \<le> w + 1 / w"
proof -
  define i where "i = 1 / w"
  have i: "0 < i" unfolding i_def using assms by simp
  have "ln w \<le> w - 1" using assms by (rule ln_le_minus_one)
  moreover have "ln i \<le> i - 1" using i by (rule ln_le_minus_one)
  moreover have "ln i = - ln w" unfolding i_def using assms by (simp add: ln_div)
  ultimately have "\<bar>ln w\<bar> \<le> w + i" using i assms by linarith
  then show ?thesis unfolding i_def .
qed

lemma abs_mult_le:
  fixes x y :: real
  assumes "\<bar>x\<bar> \<le> X" and "\<bar>y\<bar> \<le> Y"
  shows "\<bar>x * y\<bar> \<le> X * Y"
proof -
  have "0 \<le> X" using assms(1) by linarith
  have "\<bar>x\<bar> * \<bar>y\<bar> \<le> X * Y" using assms \<open>0 \<le> X\<close> by (intro mult_mono) simp_all
  then show ?thesis by (simp only: abs_mult)
qed


lemma CalculateCollisionFrequency_kT:
  "CalculateCollisionFrequency c Te n =
     16 * sqrt (PI (phys c)) / 3 * ELECTRON_CHARGE_POWER_4 (phys c)
       / (ion_mass_correction (params c) * PROTON_MASS (phys c) * ELECTRON_MASS (phys c))
       * (2 * (BOLTZMANN_CONSTANT (phys c) * Te) / ELECTRON_MASS (phys c)) powr (- 1.5)
       * n
       * (23 - ln (sqrt (n / 10 ^ 13)
                   * (BOLTZMANN_CONSTANT (phys c) * Te / (1602 / 10 ^ 12)) powr (- 1.5)))"
  by (simp only: CalculateCollisionFrequency_def Let_def mult.assoc)

lemma inverse_bound:
  fixes z :: real
  assumes "0 < b" and "b \<le> z"
  shows "1 / z \<le> 1 / b"
  using assms by (simp add: frac_le)

lemma stiff_kT:
  assumes "0 < n"
  shows "BOLTZMANN_CONSTANT (phys stiff_ctx) * electron_temperature stiff_ctx Pe n = Pe / n"
  using assms by (simp add: electron_temperature_def stiff_ctx_fields demo_constants_def)

lemma box_quotient:
  fixes Pe n :: real
  assumes "1 / 2 \<le> Pe" and "Pe \<le> 3 / 2" and "5 * 10 ^ 8 \<le> n" and "n \<le> 15 * 10 ^ 8"
  shows "1 / (3 * 10 ^ 9) \<le> Pe / n \<and> Pe / n \<le> 3 / 10 ^ 9"
proof -
  have "(1 / 2) / (15 * 10 ^ 8) \<le> Pe / n" using assms by (intro frac_le) simp_all
  moreover have "Pe / n \<le> (3 / 2) / (5 * 10 ^ 8)" using assms by (intro frac_le) simp_all
  ultimately show ?thesis by simp
qed


lemma coulomb_logarithm_bound:
  fixes u n :: real
  assumes u: "1 / (3 * 10 ^ 9) \<le> u" "u \<le> 3 / 10 ^ 9"
    and n: "5 * 10 ^ 8 \<le> n" "n \<le> 15 * 10 ^ 8"
  shows "\<bar>23 - ln (sqrt (n / 10 ^ 13) * (u / (1602 / 10 ^ 12)) powr (- 1.5))\<bar> \<le> 10 ^ 5"
proof -
  define w where "w = n / 10 ^ 13"
  define z where "z = u / (1602 / 10 ^ 12)"
  have w: "1 / (2 * 10 ^ 4) \<le> w" "w \<le> 1" unfolding w_def using n by simp_all
  have z: "1 / 5 \<le> z" "z \<le> 2" unfolding z_def using u by simp_all
  have wp: "0 < w" using w(1) by simp
  have zp: "0 < z" using z(1) by simp
  have "1 / w \<le> 1 / (1 / (2 * 10 ^ 4))" using w(1) by (intro inverse_bound) simp_all
  then have iw: "1 / w \<le> 20000" by simp
  have "1 / z \<le> 1 / (1 / 5)" using z(1) by (intro inverse_bound) simp_all
  then have iz: "1 / z \<le> 5" by simp
  have lw: "\<bar>ln w\<bar> \<le> 20001" using abs_ln_le [OF wp] w(2) iw by linarith
  have lz: "\<bar>ln z\<bar> \<le> 7" using abs_ln_le [OF zp] z(2) iz by linarith
  have sp: "0 < sqrt w" "0 < z powr (- 1.5)" using wp zp by simp_all
  have "ln (sqrt w * z powr (- 1.5)) = ln (sqrt w) + ln (z powr (- 1.5))"
    using sp by (simp add: ln_mult)
  also have "ln (sqrt w) = ln w / 2" using wp by (simp add: ln_sqrt)
  also have "ln (z powr (- 1.5)) = - 1.5 * ln z" using zp by (simp add: ln_powr)
  finally have "ln (sqrt w * z powr (- 1.5)) = ln w / 2 + - 1.5 * ln z" .
  then have "\<bar>23 - ln (sqrt w * z powr (- 1.5))\<bar> \<le> 10 ^ 5" using lw lz by simp
  then show ?thesis unfolding w_def z_def .
qed

lemma stiff_prefactor:
  "0 \<le> 16 * sqrt (PI (phys stiff_ctx)) / 3 * ELECTRON_CHARGE_POWER_4 (phys stiff_ctx)
       / (ion_mass_correction (params stiff_ctx) * PROTON_MASS (phys stiff_ctx)
            * ELECTRON_MASS (phys stiff_ctx))
   \<and> 16 * sqrt (PI (phys stiff_ctx)) / 3 * ELECTRON_CHARGE_POWER_4 (phys stiff_ctx)
       / (ion_mass_correction (params stiff_ctx) * PROTON_MASS (phys stiff_ctx)
            * ELECTRON_MASS (phys stiff_ctx)) \<le> 4 * 10 ^ 14"
proof -
  define q where "q = sqrt (PI (phys stiff_ctx))"
  have "sqrt (PI (phys stiff_ctx)) \<le> sqrt 4"
    unfolding real_sqrt_le_iff by (simp add: stiff_ctx_fields demo_constants_def)
  then have "q \<le> 2" unfolding q_def by simp
  moreover have "0 \<le> q" unfolding q_def by (simp add: stiff_ctx_fields demo_constants_def)
  ultimately have q: "0 \<le> q" "q \<le> 2" by blast+
  have "0 \<le> 16 * q / 3 * ELECTRON_CHARGE_POWER_4 (phys stiff_ctx)
       / (ion_mass_correction (params stiff_ctx) * PROTON_MASS (phys stiff_ctx)
            * ELECTRON_MASS (phys stiff_ctx))
   \<and> 16 * q / 3 * ELECTRON_CHARGE_POWER_4 (phys stiff_ctx)
       / (ion_mass_correction (params stiff_ctx) * PROTON_MASS (phys stiff_ctx)
            * ELECTRON_MASS (phys stiff_ctx)) \<le> 4 * 10 ^ 14"
    using q by (simp add: stiff_ctx_fields demo_constants_def)
  then show ?thesis unfolding q_def .
qed

lemma stiff_thermal_speed:
  fixes u :: real
  assumes "1 / (3 * 10 ^ 9) \<le> u"
  shows "0 \<le> (2 * u / ELECTRON_MASS (phys stiff_ctx)) powr (- 1.5)
         \<and> (2 * u / ELECTRON_MASS (phys stiff_ctx)) powr (- 1.5) \<le> 2 / 10 ^ 18"
proof -
  define X where "X = 2 * u / ELECTRON_MASS (phys stiff_ctx)"
  have X: "10 ^ 18 / 2 \<le> X"
    unfolding X_def using assms by (simp add: stiff_ctx_fields demo_constants_def)
  have X1: "1 \<le> X" using X by simp
  then have Xp: "0 < X" by simp
  have "X powr (- 1.5) \<le> X powr (- 1)" using X1 by (intro powr_mono) simp_all
  also have "X powr (- 1) = 1 / X" using Xp by (simp add: powr_minus_divide)
  also have "1 / X \<le> 1 / (10 ^ 18 / 2)" using X by (intro inverse_bound) simp_all
  finally have "X powr (- 1.5) \<le> 2 / 10 ^ 18" by simp
  moreover have "0 \<le> X powr (- 1.5)" by simp
  ultimately show ?thesis unfolding X_def by blast
qed


lemma stiff_collision:
  assumes "1 / 2 \<le> Pe" and "Pe \<le> 3 / 2" and "5 * 10 ^ 8 \<le> n" and "n \<le> 15 * 10 ^ 8"
  shows "\<bar>CalculateCollisionFrequency stiff_ctx (electron_temperature stiff_ctx Pe n) n\<bar>
           \<le> 10 ^ 12"
proof -
  have np: "0 < n" using assms(3) by simp
  from box_quotient [OF assms] have u: "1 / (3 * 10 ^ 9) \<le> Pe / n" "Pe / n \<le> 3 / 10 ^ 9"
    by blast+
  define A where "A = 16 * sqrt (PI (phys stiff_ctx)) / 3 * ELECTRON_CHARGE_POWER_4 (phys stiff_ctx)
       / (ion_mass_correction (params stiff_ctx) * PROTON_MASS (phys stiff_ctx)
            * ELECTRON_MASS (phys stiff_ctx))"
  define P where "P = (2 * (Pe / n) / ELECTRON_MASS (phys stiff_ctx)) powr (- 1.5)"
  define cl where
    "cl = 23 - ln (sqrt (n / 10 ^ 13) * (Pe / n / (1602 / 10 ^ 12)) powr (- 1.5))"
  have e: "CalculateCollisionFrequency stiff_ctx (electron_temperature stiff_ctx Pe n) n
             = A * P * n * cl"
    unfolding CalculateCollisionFrequency_kT stiff_kT [OF np] A_def P_def cl_def ..
  have A: "\<bar>A\<bar> \<le> 4 * 10 ^ 14" using stiff_prefactor unfolding A_def by linarith
  have P: "\<bar>P\<bar> \<le> 2 / 10 ^ 18" using stiff_thermal_speed [OF u(1)] unfolding P_def by linarith
  have n: "\<bar>n\<bar> \<le> 15 * 10 ^ 8" using np assms(4) by linarith
  have cl: "\<bar>cl\<bar> \<le> 10 ^ 5" unfolding cl_def using u assms(3,4) by (rule coulomb_logarithm_bound)
  have "\<bar>A * P * n * cl\<bar> \<le> 4 * 10 ^ 14 * (2 / 10 ^ 18) * (15 * 10 ^ 8) * 10 ^ 5"
    by (intro abs_mult_le A P n cl)
  also have "\<dots> \<le> (10 ^ 12 :: real)" by simp
  finally show ?thesis unfolding e .
qed

lemma near_box:
  assumes "near (1 / 2) s"
  shows "\<exists>Pe Pi n. s = [Pe, Pi, n] \<and> 1 / 2 \<le> Pe \<and> Pe \<le> 3 / 2 \<and> 1 / 2 \<le> Pi \<and> Pi \<le> 3 / 2
           \<and> 5 * 10 ^ 8 \<le> n \<and> n \<le> 15 * 10 ^ 8"
proof -
  from assms have l: "length s = 3" by (simp add: near_def)
  then obtain Pe Pi n where s: "s = [Pe, Pi, n]"
    by (cases s; cases "tl s"; cases "tl (tl s)") auto
  from assms have "Pe - 1 \<le> 1 / 2" "- (Pe - 1) \<le> 1 / 2" "Pi - 1 \<le> 1 / 2" "- (Pi - 1) \<le> 1 / 2"
      "n - 10 ^ 9 \<le> 1 / 2 * 10 ^ 9" "- (n - 10 ^ 9) \<le> 1 / 2 * 10 ^ 9"
    unfolding s near_def abs_le_iff by simp_all
  then have "1 / 2 \<le> Pe \<and> Pe \<le> 3 / 2 \<and> 1 / 2 \<le> Pi \<and> Pi \<le> 3 / 2
           \<and> 5 * 10 ^ 8 \<le> n \<and> n \<le> 15 * 10 ^ 8"
    by auto
  with s show ?thesis by blast
qed


lemma stiff_derivs:
  assumes "near (1 / 2) s"
  shows "\<exists>g0 g1 g2. CalculateDerivs stiff_ctx s t
             = Inr [g0 + 10 ^ 15 / 3 * unit_step t, g1 + 10 ^ 15 / 3 * unit_step t, g2]
           \<and> \<bar>g0\<bar> \<le> 2 * 10 ^ 12 \<and> \<bar>g1\<bar> \<le> 2 * 10 ^ 12 \<and> \<bar>g2\<bar> \<le> 2 * 10 ^ 12 * 10 ^ 9"
proof -
  from near_box [OF assms] obtain Pe Pi n where s: "s = [Pe, Pi, n]"
    and Pe: "1 / 2 \<le> Pe" "Pe \<le> 3 / 2" and Pi: "1 / 2 \<le> Pi" "Pi \<le> 3 / 2"
    and n: "5 * 10 ^ 8 \<le> n" "n \<le> 15 * 10 ^ 8"
    by blast
  define c1 where "c1 = state_C1 stiff_ctx Pe Pi n"
  define R where "R = radiative_R_c stiff_ctx Pe n"
  define ptr where "ptr = psi_tr_flux stiff_ctx Pe Pi n"
  define pc where "pc = psi_c_coupling stiff_ctx Pe Pi n"
  define q where
    "q = CalculateCollisionFrequency stiff_ctx (electron_temperature stiff_ctx Pe n) n * (Pi - Pe)"
  define cR where "cR = c1 * R"
  have np: "0 < n" using n(1) by simp
  have Pep: "0 < Pe" using Pe(1) by simp
  have Tep: "0 < electron_temperature stiff_ctx Pe n"
    using np Pep by (simp add: electron_temperature_def stiff_ctx_fields demo_constants_def)
  have c1b: "0 < c1" "c1 \<le> 6"
    unfolding c1_def state_C1_def using stiff_C1_bounds [OF Tep np] by blast+
  have "n\<^sup>2 \<le> (15 * 10 ^ 8)\<^sup>2" using n(2) np by (intro power_mono) simp_all
  then have n2: "n\<^sup>2 \<le> 2250000000000000000" by simp
  have Re: "R = n\<^sup>2 * (76 / 10 ^ 14)"
    by (simp add: R_def radiative_R_c_def stiff_ctx_fields)
  have Rb: "0 \<le> R" "R \<le> 2 * 10 ^ 6" unfolding Re using n2 by simp_all
  have cRb: "0 \<le> cR" "cR \<le> 12 * 10 ^ 6"
  proof -
    show "0 \<le> cR" unfolding cR_def using c1b(1) Rb(1) by simp
    have "c1 * R \<le> 6 * (2 * 10 ^ 6)" using c1b Rb by (intro mult_mono) simp_all
    then show "cR \<le> 12 * 10 ^ 6" unfolding cR_def by simp
  qed
  have fl: "flux_e stiff_ctx Pe n = 0" "flux_i stiff_ctx Pi n = 0"
    by (simp_all add: flux_e_def flux_i_def stiff_no_flux)
  have ptr_eq: "ptr = cR / (1 + Pe / Pi)"
    by (simp add: ptr_def psi_tr_flux_def fl cR_def c1_def R_def)
  have d: "1 \<le> 1 + Pe / Pi" using Pep Pi(1) by simp
  have ptrb: "0 \<le> ptr" "ptr \<le> cR"
  proof -
    show "0 \<le> ptr" unfolding ptr_eq using cRb(1) d by simp
    have "cR / (1 + Pe / Pi) \<le> cR / 1" using cRb(1) d by (intro divide_left_mono) simp_all
    then show "ptr \<le> cR" unfolding ptr_eq by simp
  qed
  have pc_eq: "pc = 6 * 10 ^ 9 * q"
    by (simp add: pc_def psi_c_coupling_def q_def stiff_ctx_fields demo_constants_def)
  have "\<bar>Pi - Pe\<bar> \<le> 1" using Pe Pi by linarith
  with stiff_collision [OF Pe n] have "\<bar>q\<bar> \<le> 10 ^ 12 * 1" unfolding q_def by (rule abs_mult_le)
  then have qb: "\<bar>q\<bar> \<le> 1000000000000" by simp
  define g0 where "g0 = GAMMA_MINUS_ONE (phys stiff_ctx) / loop_length (params stiff_ctx)
            * (psi_tr_flux stiff_ctx Pe Pi n + psi_c_coupling stiff_ctx Pe Pi n
                 - radiative_R_c stiff_ctx Pe n * (1 + state_C1 stiff_ctx Pe Pi n))"
  define g1 where "g1 = - GAMMA_MINUS_ONE (phys stiff_ctx) / loop_length (params stiff_ctx)
            * (psi_tr_flux stiff_ctx Pe Pi n + psi_c_coupling stiff_ctx Pe Pi n)"
  define g2 where "g2 = CalculateC2 * GAMMA_MINUS_ONE (phys stiff_ctx)
            / (CalculateC3 * loop_length (params stiff_ctx) * GAMMA (phys stiff_ctx)
                 * BOLTZMANN_CONSTANT (phys stiff_ctx) * electron_temperature stiff_ctx Pe n)
            * (- flux_e stiff_ctx Pe n - state_C1 stiff_ctx Pe Pi n * radiative_R_c stiff_ctx Pe n
                 + psi_tr_flux stiff_ctx Pe Pi n)"
  have h: "GAMMA_MINUS_ONE (phys stiff_ctx) * Get_Heating stiff_ctx t * heater_partition stiff_ctx
             = 10 ^ 15 / 3 * unit_step t"
      "GAMMA_MINUS_ONE (phys stiff_ctx) * Get_Heating stiff_ctx t
         * (1 - heater_partition stiff_ctx) = 10 ^ 15 / 3 * unit_step t"
    by (simp_all add: stiff_ctx_fields demo_constants_def)
  have e: "CalculateDerivs stiff_ctx s t
             = Inr [g0 + 10 ^ 15 / 3 * unit_step t, g1 + 10 ^ 15 / 3 * unit_step t, g2]"
    unfolding s CalculateDerivs_formula h g0_def g1_def g2_def ..
  have g0e: "g0 = (ptr - R - cR) / 6000000000 + q"
    unfolding g0_def ptr_def [symmetric] pc_def [symmetric] R_def [symmetric] c1_def [symmetric]
      pc_eq cR_def
    by (simp add: stiff_ctx_fields demo_constants_def field_simps)
  have g1e: "g1 = - ptr / 6000000000 - q"
    unfolding g1_def ptr_def [symmetric] pc_def [symmetric] pc_eq
    by (simp add: stiff_ctx_fields demo_constants_def field_simps)
  have "- 6000000000 \<le> ptr - R - cR" "ptr - R - cR \<le> 6000000000"
    using ptrb Rb cRb by simp_all
  then have v0: "- 1 \<le> (ptr - R - cR) / 6000000000" "(ptr - R - cR) / 6000000000 \<le> 1"
    by simp_all
  have "- 6000000000 \<le> - ptr" "- ptr \<le> 6000000000" using ptrb cRb by simp_all
  then have v1: "- 1 \<le> - ptr / 6000000000" "- ptr / 6000000000 \<le> 1" by simp_all
  have "\<bar>g0\<bar> \<le> 2000000000000" unfolding g0e using v0 qb by linarith
  then have b0: "\<bar>g0\<bar> \<le> 2 * 10 ^ 12" by simp
  have "\<bar>g1\<bar> \<le> 2000000000000" unfolding g1e using v1 qb by linarith
  then have b1: "\<bar>g1\<bar> \<le> 2 * 10 ^ 12" by simp
  define k where "k = CalculateC2 * GAMMA_MINUS_ONE (phys stiff_ctx)
            / (CalculateC3 * loop_length (params stiff_ctx) * GAMMA (phys stiff_ctx)
                 * BOLTZMANN_CONSTANT (phys stiff_ctx) * electron_temperature stiff_ctx Pe n)"
  from box_quotient [OF Pe n] have u: "1 / (3 * 10 ^ 9) \<le> Pe / n" by blast
  define dd where "dd = 4 * 10 ^ 9 * (Pe / n)"
  have "CalculateC3 * loop_length (params stiff_ctx) * GAMMA (phys stiff_ctx)
          * BOLTZMANN_CONSTANT (phys stiff_ctx) * electron_temperature stiff_ctx Pe n
        = CalculateC3 * loop_length (params stiff_ctx) * GAMMA (phys stiff_ctx)
          * (BOLTZMANN_CONSTANT (phys stiff_ctx) * electron_temperature stiff_ctx Pe n)"
    by (simp only: mult.assoc)
  also have "\<dots> = dd"
    unfolding stiff_kT [OF np] dd_def
    by (simp add: CalculateC3_def stiff_ctx_fields demo_constants_def)
  finally have ke: "k = (6 / 10) / dd"
    unfolding k_def by (simp add: CalculateC2_def stiff_ctx_fields demo_constants_def)
  have dn: "4 / 3 \<le> dd" unfolding dd_def using u by simp
  have kb: "\<bar>k\<bar> \<le> 1"
  proof -
    have "0 \<le> k" unfolding ke using dn by simp
    moreover have "(6 / 10) / dd \<le> (6 / 10) / (4 / 3)"
      using dn by (intro divide_left_mono) simp_all
    then have "k \<le> 1" unfolding ke by simp
    ultimately show ?thesis by simp
  qed
  have g2e: "g2 = k * (ptr - cR)"
    unfolding g2_def k_def [symmetric] fl ptr_def [symmetric] R_def [symmetric]
      c1_def [symmetric] cR_def by simp
  have "\<bar>ptr - cR\<bar> \<le> 12 * 10 ^ 6" using ptrb cRb by simp
  with kb have "\<bar>k * (ptr - cR)\<bar> \<le> 1 * (12 * 10 ^ 6)" by (rule abs_mult_le)
  then have b2: "\<bar>g2\<bar> \<le> 2 * 10 ^ 12 * 10 ^ 9" unfolding g2e by simp
  from e b0 b1 b2 show ?thesis by blast
qed

subsection \<open>A run of a hundred failed attempts\<close>

text \<open>
  At the jump of the heating rate the two half steps and the full step of an attempt
  weigh the jump differently, so their first components differ by about a twelfth of
  the step size times the heating term. With no tolerance, every attempt of
  \<open>RKA4Solver\<close> from a step size of \<open>10\<^sup>-\<^sup>1\<^sup>5\<close> fails.
\<close>

lemma unit_step_range: "0 \<le> unit_step t \<and> unit_step t \<le> 1"
  by (simp add: unit_step_def)

lemma stiff_RK4Solver:
  assumes "near r s" and "0 < \<tau>" and "r + \<tau> * (2 * 10 ^ 12 + 10 ^ 15 / 3) \<le> 1 / 2"
  shows "\<exists>s' e. RK4Solver stiff_ctx s t \<tau> = Inr s'
           \<and> near (r + \<tau> * (2 * 10 ^ 12 + 10 ^ 15 / 3)) s'
           \<and> s' ! 0 = s ! 0 + \<tau> * (10 ^ 15 / 3)
                               * (unit_step t + 4 * unit_step (t + \<tau> / 2) + unit_step (t + \<tau>)) / 6
                       + e
           \<and> \<bar>e\<bar> \<le> \<tau> * (2 * 10 ^ 12)"
  using stiff_derivs unit_step_range _ _ assms by (rule RK4Solver_near) simp_all

lemma near_demo_state: "near 0 demo_state"
  by (simp add: near_def demo_state_def)

lemma stiff_attempt:
  assumes "0 < \<tau>" and "\<tau> \<le> 1 / 10 ^ 15"
  shows "\<exists>small r. attempt_at stiff_ctx demo_state 0 \<tau> small r \<and> \<tau> * 10 ^ 29 \<le> r"
proof -
  define h where "h = \<tau> * 0.5"
  define K :: real where "K = 2 * 10 ^ 12 + 10 ^ 15 / 3"
  have h: "0 < h" "h + h = \<tau>" unfolding h_def using assms(1) by simp_all
  have \<tau>K: "\<tau> * K \<le> 1 / 2"
  proof -
    have "\<tau> * K \<le> 1 / 10 ^ 15 * K" using assms(2) by (intro mult_right_mono) (simp_all add: K_def)
    also have "\<dots> \<le> 1 / 2" by (simp add: K_def)
    finally show ?thesis .
  qed
  have hK: "h * K + h * K = \<tau> * K" unfolding h(2) [symmetric] by (simp add: algebra_simps)
  have hKp: "0 \<le> h * K" using h(1) by (simp add: K_def)
  have c1: "0 + h * K \<le> 1 / 2" using hK hKp \<tau>K by linarith
  have c2: "0 + h * K + h * K \<le> 1 / 2" using hK \<tau>K by linarith
  have c3: "0 + \<tau> * K \<le> 1 / 2" using \<tau>K by simp
  from stiff_RK4Solver [OF near_demo_state h(1) c1 [unfolded K_def], of 0]
  obtain half e1 where
    half: "RK4Solver stiff_ctx demo_state 0 h = Inr half" "near (0 + h * K) half"
      and h0: "half ! 0 = demo_state ! 0 + h * (10 ^ 15 / 3)
                 * (unit_step 0 + 4 * unit_step (0 + h / 2) + unit_step (0 + h)) / 6 + e1"
      and e1: "\<bar>e1\<bar> \<le> h * (2 * 10 ^ 12)"
    unfolding K_def by blast
  from stiff_RK4Solver [OF half(2) [unfolded K_def] h(1) c2 [unfolded K_def], of "0 + h"]
  obtain small e2 where
    small: "RK4Solver stiff_ctx half (0 + h) h = Inr small" "near (0 + h * K + h * K) small"
      and s0: "small ! 0 = half ! 0 + h * (10 ^ 15 / 3)
                 * (unit_step (0 + h) + 4 * unit_step (0 + h + h / 2) + unit_step (0 + h + h)) / 6
                 + e2"
      and e2: "\<bar>e2\<bar> \<le> h * (2 * 10 ^ 12)"
    unfolding K_def by blast
  from stiff_RK4Solver [OF near_demo_state assms(1) c3 [unfolded K_def], of 0]
  obtain big e3 where
    big: "RK4Solver stiff_ctx demo_state 0 \<tau> = Inr big"
      and b0: "big ! 0 = demo_state ! 0 + \<tau> * (10 ^ 15 / 3)
                 * (unit_step 0 + 4 * unit_step (0 + \<tau> / 2) + unit_step (0 + \<tau>)) / 6 + e3"
      and e3: "\<bar>e3\<bar> \<le> \<tau> * (2 * 10 ^ 12)"
    by blast
  have h0': "half ! 0 = 1 + h * (10 ^ 15 / 3) * 5 / 6 + e1"
    unfolding h0 using h(1) by (simp add: unit_step_def demo_state_def)
  have s0': "small ! 0 = half ! 0 + h * (10 ^ 15 / 3) + e2"
    unfolding s0 using h(1) by (simp add: unit_step_def)
  have b0': "big ! 0 = 1 + \<tau> * (10 ^ 15 / 3) * 5 / 6 + e3"
    unfolding b0 using assms(1) by (simp add: unit_step_def demo_state_def)
  have d: "small ! 0 - big ! 0 = \<tau> * (10 ^ 15 / 36) + e1 + e2 - e3"
    unfolding s0' h0' b0' h(2) [symmetric] by (simp add: algebra_simps)
  have "\<bar>e1\<bar> + \<bar>e2\<bar> \<le> \<tau> * (2 * 10 ^ 12)"
    using e1 e2 unfolding h(2) [symmetric] by (simp add: algebra_simps)
  then have "\<tau> * (10 ^ 15 / 36) - \<tau> * (2 * 10 ^ 12) - \<tau> * (2 * 10 ^ 12) \<le> small ! 0 - big ! 0"
    unfolding d using e3 by linarith
  moreover have "\<tau> * 10 ^ 13 \<le> \<tau> * (10 ^ 15 / 36) - \<tau> * (2 * 10 ^ 12) - \<tau> * (2 * 10 ^ 12)"
    using assms(1) by (simp add: algebra_simps)
  ultimately have diff: "\<tau> * 10 ^ 13 \<le> small ! 0 - big ! 0" by linarith
  have "0 \<le> \<tau> * 10 ^ 13" using assms(1) by simp
  with diff have "\<bar>small ! 0 - big ! 0\<bar> = small ! 0 - big ! 0" by linarith
  then have ce: "component_error_ratio stiff_ctx small big 0 = (small ! 0 - big ! 0) * 10 ^ 16"
    by (simp add: component_error_ratio_def stiff_ctx_fields)
  have "\<tau> * 10 ^ 13 * 10 ^ 16 \<le> (small ! 0 - big ! 0) * 10 ^ 16"
    using diff by (intro mult_right_mono) simp_all
  then have cb: "\<tau> * 10 ^ 29 \<le> component_error_ratio stiff_ctx small big 0"
    unfolding ce by simp
  have l: "length small = 3" using small(2) by (simp add: near_def)
  have "component_error_ratio stiff_ctx small big 0
          \<le> Max (component_error_ratio stiff_ctx small big ` {..<length small})"
    unfolding l by (intro Max_ge) simp_all
  with cb have w: "\<tau> * 10 ^ 29 \<le> worst_error_ratio stiff_ctx small big"
    unfolding worst_error_ratio_def by linarith
  have "attempt_at stiff_ctx demo_state 0 \<tau> small (worst_error_ratio stiff_ctx small big)"
    unfolding attempt_at_def using half(1) small(1) big unfolding h_def by auto
  with w show ?thesis by blast
qed

lemma growth_ten_steps: "(1.1 :: real) ^ 10 \<le> 3"
  by (simp add: power_divide)

lemma growth_hundred_steps: "(1.1 :: real) ^ 100 \<le> 10 ^ 14"
proof -
  have "(1.1 :: real) ^ 100 = (1.1 ^ 10) ^ 10" by (simp only: power_mult [symmetric]) simp
  also have "\<dots> \<le> 3 ^ 10" using growth_ten_steps by (intro power_mono) simp_all
  also have "\<dots> \<le> (10 ^ 14 :: real)" by simp
  finally show ?thesis .
qed

lemma stiff_all_failed:
  "\<forall>k<100. \<exists>small r. attempt_at stiff_ctx demo_state 0 (1 / 10 ^ 15 / 1.1 ^ k) small r \<and> 1 \<le> r"
proof (intro allI impI)
  fix k :: nat
  assume k: "k < 100"
  define p :: real where "p = 1.1 ^ k"
  have p1: "1 \<le> p" unfolding p_def by (rule one_le_power) simp
  have "(1.1 :: real) ^ k \<le> 1.1 ^ 100" using k by (intro power_increasing) simp_all
  also have "\<dots> \<le> (10 ^ 14 :: real)" by (rule growth_hundred_steps)
  finally have p2: "p \<le> 10 ^ 14" unfolding p_def .
  have pp: "0 < p" using p1 by simp
  have t0: "0 < 1 / 10 ^ 15 / p" using pp by simp
  have "1 / 10 ^ 15 / p \<le> 1 / 10 ^ 15 / 1" using p1 by (intro divide_left_mono) simp_all
  then have t1: "1 / 10 ^ 15 / p \<le> 1 / 10 ^ 15" by simp
  have "1 / 10 ^ 15 / (10 ^ 14) \<le> 1 / 10 ^ 15 / p"
    using p2 pp by (intro divide_left_mono) simp_all
  then have "1 / 10 ^ 15 / (10 ^ 14) * 10 ^ 29 \<le> 1 / 10 ^ 15 / p * 10 ^ 29"
    by (intro mult_right_mono) simp_all
  then have t2: "1 \<le> 1 / 10 ^ 15 / p * 10 ^ 29" by simp
  from stiff_attempt [OF t0 t1] obtain small r where
    "attempt_at stiff_ctx demo_state 0 (1 / 10 ^ 15 / p) small r" "1 / 10 ^ 15 / p * 10 ^ 29 \<le> r"
    by blast
  with t2 have "attempt_at stiff_ctx demo_state 0 (1 / 10 ^ 15 / p) small r \<and> 1 \<le> r"
    by linarith
  then show "\<exists>small r. attempt_at stiff_ctx demo_state 0 (1 / 10 ^ 15 / 1.1 ^ k) small r \<and> 1 \<le> r"
    unfolding p_def by blast
qed

lemma stiff_all_failed_list:
  "list_all (\<lambda>k. \<exists>small r. attempt_at stiff_ctx demo_state 0 (1 / 10 ^ 15 / 1.1 ^ k) small r
                      \<and> 1 \<le> r) [0..<100]"
  using stiff_all_failed unfolding list_all_iff by simp

lemma demo_state_length: "3 \<le> length demo_state"
  by (simp add: demo_state_def)

lemma stiff_step_size: "(0::real) < 1 / 10 ^ 15"
  by simp

text \<open>
  The non-convergence path is taken: on \<open>stiff_ctx\<close>, from \<open>demo_state\<close> at time zero with
  a step size of \<open>10\<^sup>-\<^sup>1\<^sup>5\<close>, all hundred attempts fail and the call returns with the
  warning.
\<close>

theorem RKA4Solver_not_converged_witness:
  "3 \<le> length demo_state \<and> (0::real) < 1 / 10 ^ 15
   \<and> list_all (\<lambda>k. \<exists>small r. attempt_at stiff_ctx demo_state 0 (1 / 10 ^ 15 / 1.1 ^ k) small r
                         \<and> 1 \<le> r) [0..<100]
   \<and> (\<exists>\<tau>_prev small r \<tau>_new.
           \<tau>_prev = 1 / 10 ^ 15 / 1.1 ^ 99 \<and> attempt_at stiff_ctx demo_state 0 \<tau>_prev small r
           \<and> \<tau>_new = min (max (0.9 * \<tau>_prev * r powr (- 1 / 5)) (\<tau>_prev / 1.1)) (4 * \<tau>_prev)
           \<and> RKA4Solver stiff_ctx demo_state 0 (1 / 10 ^ 15) =
               Inr (small @ [\<tau>_new], [Warning_not_converged, Returning_tau \<tau>_new 0]))"
  using RKA4Solver_not_converged [OF demo_state_length stiff_step_size stiff_all_failed]
    demo_state_length stiff_step_size stiff_all_failed_list
  by blast

end
